theory Spec2Isabelle
  imports Complex_Main "HOL-Library.Word"
begin

section \<open>Data model of the text-to-speech audio manager\<close>

text \<open>
  The module keeps its state in module-level variables (the Polly client, the error
  counter of the circuit breaker, the set of active audio elements, the request queue,
  the settings and the metrics). The model gathers them in one record that every
  operation takes and returns. What the browser holds for the module (audio elements,
  pending timers, pending remote calls, listeners, the console) is kept in the same
  record, so that each continuation of an asynchronous function is a function of the
  state at the moment it runs.
\<close>

subsection \<open>JavaScript values\<close>

text \<open>
  A JavaScript number is either \<open>NaN\<close> or a numeric value. \<open>Math.max\<close> and \<open>Math.min\<close>
  return \<open>NaN\<close> as soon as one argument is \<open>NaN\<close>, and every comparison with \<open>NaN\<close> is false.
\<close>

datatype jsnum = NaN | Num real

fun Math_min :: "jsnum \<Rightarrow> jsnum \<Rightarrow> jsnum" where
  "Math_min (Num a) (Num b) = Num (min a b)"
| "Math_min _ _ = NaN"

fun Math_max :: "jsnum \<Rightarrow> jsnum \<Rightarrow> jsnum" where
  "Math_max (Num a) (Num b) = Num (max a b)"
| "Math_max _ _ = NaN"

fun js_ge :: "jsnum \<Rightarrow> jsnum \<Rightarrow> bool" where
  "js_ge (Num a) (Num b) = (a \<ge> b)"
| "js_ge _ _ = False"

fun js_lt :: "jsnum \<Rightarrow> jsnum \<Rightarrow> bool" where
  "js_lt (Num a) (Num b) = (a < b)"
| "js_lt _ _ = False"

text \<open>A string is a sequence of UTF-16 code units; \<open>length\<close> counts code units.\<close>

type_synonym jsstring = "16 word list"

text \<open>The code units that \<open>String.prototype.trim\<close> strips (white space and line terminators).\<close>

definition isWhiteSpace :: "16 word \<Rightarrow> bool" where
  "isWhiteSpace c \<longleftrightarrow>
     c = 0x9 \<or> c = 0xA \<or> c = 0xB \<or> c = 0xC \<or> c = 0xD \<or> c = 0x20 \<or> c = 0xA0 \<or>
     c = 0x1680 \<or> (0x2000 \<le> c \<and> c \<le> 0x200A) \<or> c = 0x2028 \<or> c = 0x2029 \<or>
     c = 0x202F \<or> c = 0x205F \<or> c = 0x3000 \<or> c = 0xFEFF"

definition trim :: "jsstring \<Rightarrow> jsstring" where
  "trim t = rev (dropWhile isWhiteSpace (rev (dropWhile isWhiteSpace t)))"

text \<open>The argument of \<open>speakText\<close>: a string, or any value that is not a string.\<close>

datatype speak_arg = Text jsstring | NonString

text \<open>An error object: its \<open>message\<close>, its \<open>name\<close> and its \<open>code\<close> (undefined on most errors).\<close>

record js_error =
  err_message :: string
  err_name :: string
  err_code :: "string option"

definition Error :: "string \<Rightarrow> js_error" where
  "Error m = \<lparr>err_message = m, err_name = ''Error'', err_code = None\<rparr>"

datatype level = Log | Warn | Err

type_synonym log_entry = "level \<times> string"

subsection \<open>Module state\<close>

record audio_settings =
  maxConcurrentAudio :: jsnum
  defaultVolume :: jsnum
  fadeOutDuration :: jsnum
  queueProcessingDelay :: jsnum

record metrics =
  totalRequests :: nat
  successfulRequests :: nat
  averageResponseTime :: real
  lastRequestTime :: int
  queuedRequests :: int

text \<open>
  An \<open>HTMLAudioElement\<close>: the flags the module reads, its volume, and how often the
  object URL of its source has been revoked.
\<close>

record audio_element =
  el_paused :: bool
  el_ended :: bool
  el_error :: bool
  el_volume :: real
  el_revoked :: nat

text \<open>
  A suspended call of \<open>synthesizeAndPlayAudio\<close> waiting for the remote service: the text
  it sent, the start time of the request, and who awaits it (a direct \<open>speakText\<close> call
  or the drain loop of the queue), with the number of the \<open>speakText\<close> call.
\<close>

datatype origin = Direct | Queued

record request =
  req_call :: nat
  req_text :: jsstring
  req_start :: int
  req_origin :: origin

text \<open>A running fade-out interval: the element, its volume at the start, the step counter.\<close>

record fade =
  fade_el :: nat
  fade_original :: real
  fade_step :: nat

datatype settle = Resolved | Rejected js_error

record tts_state =
  pollyClient :: bool
  ttsErrorCount :: nat
  lastErrorTime :: "int option"
  activeAudioElements :: "nat list"
  audioQueue :: "(jsstring \<times> nat) list"
  isProcessingQueue :: bool
  audioSettings :: audio_settings
  performanceMetrics :: metrics
  elements :: "nat \<Rightarrow> audio_element"
  nextElement :: nat
  pendingRequests :: "request list"
  nextCall :: nat
  promises :: "(nat \<times> settle) list"
  fadeIntervals :: "fade list"
  queueTimers :: nat
  pacingDelays :: nat
  interactionListeners :: "nat list"
  cleanupTimers :: "nat list"
  volumeTimers :: "(nat \<times> real) list"
  console :: "log_entry list"

definition MAX_ERROR_COUNT :: nat where
  "MAX_ERROR_COUNT = 5"

definition ERROR_RESET_TIME :: int where
  "ERROR_RESET_TIME = 300000"

definition new_element :: audio_element where
  "new_element = \<lparr>el_paused = True, el_ended = False, el_error = False, el_volume = 1,
     el_revoked = 0\<rparr>"

text \<open>The values of the module-level variables when the module is loaded.\<close>

definition initial_state :: tts_state where
  "initial_state = \<lparr>
     pollyClient = False,
     ttsErrorCount = 0,
     lastErrorTime = None,
     activeAudioElements = [],
     audioQueue = [],
     isProcessingQueue = False,
     audioSettings = \<lparr>maxConcurrentAudio = Num 3, defaultVolume = Num (7 / 10),
       fadeOutDuration = Num 500, queueProcessingDelay = Num 100\<rparr>,
     performanceMetrics = \<lparr>totalRequests = 0, successfulRequests = 0,
       averageResponseTime = 0, lastRequestTime = 0, queuedRequests = 0\<rparr>,
     elements = (\<lambda>_. new_element),
     nextElement = 0,
     pendingRequests = [],
     nextCall = 0,
     promises = [],
     fadeIntervals = [],
     queueTimers = 0,
     pacingDelays = 0,
     interactionListeners = [],
     cleanupTimers = [],
     volumeTimers = [],
     console = []\<rparr>"

definition say :: "level \<Rightarrow> string \<Rightarrow> tts_state \<Rightarrow> tts_state" where
  "say l m s = s\<lparr>console := console s @ [(l, m)]\<rparr>"

section \<open>Client and circuit breaker\<close>

text \<open>
  \<open>initializePollyClient\<close>: the client is created when both credentials are non-blank
  (a blank region is replaced by the default and does not stop the creation).
\<close>

record aws_config =
  accessKeyId :: jsstring
  secretAccessKey :: jsstring

definition initializePollyClient :: "aws_config \<Rightarrow> tts_state \<Rightarrow> tts_state" where
  "initializePollyClient cfg s =
     (if accessKeyId cfg = [] \<or> trim (accessKeyId cfg) = [] then
        say Warn ''TTS_INIT_ERROR: AWS Access Key ID not found or empty'' s
      else if secretAccessKey cfg = [] \<or> trim (secretAccessKey cfg) = [] then
        say Warn ''TTS_INIT_ERROR: AWS Secret Access Key not found or empty'' s
      else say Log ''TTS_SUCCESS: AWS Polly client initialized successfully''
             (s\<lparr>pollyClient := True\<rparr>))"

text \<open>
  \<open>isTtsTemporarilyDisabled\<close> reads the clock and may reset the breaker, so it returns
  its answer together with the state. \<open>lastErrorTime && ...\<close> is false for \<open>null\<close> and
  for the number 0.
\<close>

definition isTtsTemporarilyDisabled :: "int \<Rightarrow> tts_state \<Rightarrow> bool \<times> tts_state" where
  "isTtsTemporarilyDisabled now s =
     (if ttsErrorCount s < MAX_ERROR_COUNT then (False, s)
      else (case lastErrorTime s of
              Some t \<Rightarrow>
                if t \<noteq> 0 \<and> now - t > ERROR_RESET_TIME then
                  (False, (say Log ''TTS_RECOVERY: Error count reset after timeout, re-enabling TTS'' s)
                            \<lparr>ttsErrorCount := 0, lastErrorTime := None\<rparr>)
                else (True, s)
            | None \<Rightarrow> (True, s)))"

definition isPollyAvailable :: "int \<Rightarrow> tts_state \<Rightarrow> bool \<times> tts_state" where
  "isPollyAvailable now s =
     (if pollyClient s then
        (let (d, s') = isTtsTemporarilyDisabled now s in (\<not> d, s'))
      else (False, s))"

datatype errorType = UNKNOWN | TIMEOUT | CREDENTIALS | NETWORK | RATE_LIMIT | PARAMETER | SERVICE

definition recordTtsError :: "errorType \<Rightarrow> int \<Rightarrow> tts_state \<Rightarrow> tts_state" where
  "recordTtsError errorType now s =
     (let s1 = say Warn ''TTS_ERROR_TRACKING: Error count increased''
                 (s\<lparr>ttsErrorCount := ttsErrorCount s + 1, lastErrorTime := Some now\<rparr>)
      in if ttsErrorCount s1 \<ge> MAX_ERROR_COUNT
         then say Warn ''TTS_CIRCUIT_BREAKER: TTS temporarily disabled due to repeated errors'' s1
         else s1)"

record tts_status =
  clientInitialized :: bool
  errorCount :: nat
  status_lastErrorTime :: "int option"
  temporarilyDisabled :: bool

text \<open>
  \<open>getTtsStatus\<close> builds its object field by field: the counter and the time stamp are
  read first, then \<open>isTtsTemporarilyDisabled()\<close> is called. The two fields that only
  repeat the configuration (credentials present, region) are left out.
\<close>

definition getTtsStatus :: "int \<Rightarrow> tts_state \<Rightarrow> tts_status \<times> tts_state" where
  "getTtsStatus now s =
     (let (d, s') = isTtsTemporarilyDisabled now s
      in (\<lparr>clientInitialized = pollyClient s, errorCount = ttsErrorCount s,
           status_lastErrorTime = lastErrorTime s, temporarilyDisabled = d\<rparr>, s'))"

definition resetTtsErrors :: "tts_state \<Rightarrow> tts_state" where
  "resetTtsErrors s =
     say Log ''TTS_RECOVERY: Error tracking manually reset''
       (s\<lparr>ttsErrorCount := 0, lastErrorTime := None\<rparr>)"

section \<open>Settings\<close>

text \<open>
  The argument of \<open>configureAudioSettings\<close>: an object that has any of the four settings.
  The spread \<open>{...audioSettings, ...settings}\<close> takes each field from the argument when
  it is there and from the current settings otherwise.
\<close>

record settings_patch =
  new_maxConcurrentAudio :: "jsnum option"
  new_defaultVolume :: "jsnum option"
  new_fadeOutDuration :: "jsnum option"
  new_queueProcessingDelay :: "jsnum option"

definition spread :: "jsnum \<Rightarrow> jsnum option \<Rightarrow> jsnum" where
  "spread old new = (case new of None \<Rightarrow> old | Some v \<Rightarrow> v)"

definition configureAudioSettings :: "settings_patch \<Rightarrow> tts_state \<Rightarrow> tts_state" where
  "configureAudioSettings p s =
     (let a = audioSettings s;
          m = \<lparr>maxConcurrentAudio = spread (maxConcurrentAudio a) (new_maxConcurrentAudio p),
               defaultVolume = spread (defaultVolume a) (new_defaultVolume p),
               fadeOutDuration = spread (fadeOutDuration a) (new_fadeOutDuration p),
               queueProcessingDelay = spread (queueProcessingDelay a) (new_queueProcessingDelay p)\<rparr>;
          m1 = m\<lparr>maxConcurrentAudio := Math_max (Num 1) (Math_min (Num 10) (maxConcurrentAudio m))\<rparr>;
          m2 = m1\<lparr>defaultVolume := Math_max (Num 0) (Math_min (Num 1) (defaultVolume m1))\<rparr>;
          m3 = m2\<lparr>fadeOutDuration := Math_max (Num 0) (Math_min (Num 5000) (fadeOutDuration m2))\<rparr>
      in say Log ''TTS_AUDIO_CONFIG: Audio settings updated'' (s\<lparr>audioSettings := m3\<rparr>))"

section \<open>Active set, eviction and element events\<close>

definition revoke :: "nat \<Rightarrow> tts_state \<Rightarrow> tts_state" where
  "revoke i s =
     s\<lparr>elements := (elements s)(i := (elements s i)\<lparr>el_revoked := el_revoked (elements s i) + 1\<rparr>)\<rparr>"

definition set_paused :: "nat \<Rightarrow> bool \<Rightarrow> tts_state \<Rightarrow> tts_state" where
  "set_paused i b s = s\<lparr>elements := (elements s)(i := (elements s i)\<lparr>el_paused := b\<rparr>)\<rparr>"

definition set_volume :: "nat \<Rightarrow> real \<Rightarrow> tts_state \<Rightarrow> tts_state" where
  "set_volume i v s = s\<lparr>elements := (elements s)(i := (elements s i)\<lparr>el_volume := v\<rparr>)\<rparr>"

text \<open>\<open>activeAudioElements\<close> is a \<open>Set\<close>: insertion-ordered, without duplicates.\<close>

definition add_active :: "nat \<Rightarrow> tts_state \<Rightarrow> tts_state" where
  "add_active i s =
     (if i \<in> set (activeAudioElements s) then s
      else s\<lparr>activeAudioElements := activeAudioElements s @ [i]\<rparr>)"

definition delete_active :: "nat \<Rightarrow> tts_state \<Rightarrow> tts_state" where
  "delete_active i s = s\<lparr>activeAudioElements := removeAll i (activeAudioElements s)\<rparr>"

definition active_size :: "tts_state \<Rightarrow> jsnum" where
  "active_size s = Num (real (length (activeAudioElements s)))"

text \<open>\<open>setTimeout(() => processAudioQueue(), ...)\<close>: one more pending timer.\<close>

definition scheduleQueue :: "tts_state \<Rightarrow> tts_state" where
  "scheduleQueue s = s\<lparr>queueTimers := queueTimers s + 1\<rparr>"

text \<open>\<open>fadeOutAudio\<close> starts an interval; the steps of the interval are \<open>fadeTick\<close>.\<close>

definition fadeSteps :: nat where
  "fadeSteps = 20"

definition fadeOutAudio :: "nat \<Rightarrow> tts_state \<Rightarrow> tts_state" where
  "fadeOutAudio i s =
     (if el_paused (elements s i) then s
      else s\<lparr>fadeIntervals := fadeIntervals s @
             [\<lparr>fade_el = i, fade_original = el_volume (elements s i), fade_step = 0\<rparr>]\<rparr>)"

definition fadeTick :: "nat \<Rightarrow> tts_state \<Rightarrow> tts_state" where
  "fadeTick k s =
     (let f = fadeIntervals s ! k;
          currentStep = fade_step f + 1;
          volumeStep = fade_original f / real fadeSteps;
          v = max 0 (fade_original f - volumeStep * real currentStep);
          s1 = set_volume (fade_el f) v s
      in if currentStep \<ge> fadeSteps \<or> v \<le> 0 then
           revoke (fade_el f) (delete_active (fade_el f) (set_paused (fade_el f) True
             (s1\<lparr>fadeIntervals := take k (fadeIntervals s1) @ drop (Suc k) (fadeIntervals s1)\<rparr>)))
         else s1\<lparr>fadeIntervals := (fadeIntervals s1)[k := f\<lparr>fade_step := currentStep\<rparr>]\<rparr>)"

definition finished :: "tts_state \<Rightarrow> nat \<Rightarrow> bool" where
  "finished s i \<longleftrightarrow> el_ended (elements s i) \<or> el_error (elements s i) \<or> el_paused (elements s i)"

definition manageAudioConcurrency :: "tts_state \<Rightarrow> tts_state" where
  "manageAudioConcurrency s =
     (let elementsToRemove = filter (finished s) (activeAudioElements s);
          s1 = fold (\<lambda>element. revoke element \<circ> delete_active element) elementsToRemove s
      in if js_ge (active_size s1) (maxConcurrentAudio (audioSettings s1)) then
           (case activeAudioElements s1 of
              [] \<Rightarrow> s1
            | oldestElement # _ \<Rightarrow> fadeOutAudio oldestElement s1)
         else s1)"

text \<open>The listeners that \<open>synthesizeAndPlayAudio\<close> attaches to each element.\<close>

definition on_error :: "nat \<Rightarrow> tts_state \<Rightarrow> tts_state" where
  "on_error i s =
     scheduleQueue (revoke i (delete_active i
       (say Warn ''TTS_AUDIO_ERROR: Audio playback error occurred'' s)))"

definition on_ended :: "nat \<Rightarrow> tts_state \<Rightarrow> tts_state" where
  "on_ended i s =
     scheduleQueue (revoke i (delete_active i
       (say Log ''TTS_AUDIO_SUCCESS: Audio playback completed'' s)))"

text \<open>The \<open>pause\<close> listener; \<open>atStart\<close> says whether \<open>currentTime\<close> is 0 when it runs.\<close>

definition on_pause :: "bool \<Rightarrow> nat \<Rightarrow> tts_state \<Rightarrow> tts_state" where
  "on_pause atStart i s =
     (if atStart \<or> el_ended (elements s i) then scheduleQueue (revoke i (delete_active i s))
      else s)"

text \<open>
  The browser's part when playback reaches the end of the audio: \<open>ended\<close> and \<open>paused\<close>
  become true, then the \<open>pause\<close> event and the \<open>ended\<close> event are fired. On a playback
  error the element's \<open>error\<close> is set and the \<open>error\<close> event is fired.
\<close>

definition audio_ended :: "nat \<Rightarrow> tts_state \<Rightarrow> tts_state" where
  "audio_ended i s =
     on_ended i (on_pause False i
       (s\<lparr>elements := (elements s)(i := (elements s i)\<lparr>el_paused := True, el_ended := True\<rparr>)\<rparr>))"

definition audio_error :: "nat \<Rightarrow> tts_state \<Rightarrow> tts_state" where
  "audio_error i s =
     on_error i (s\<lparr>elements := (elements s)(i := (elements s i)\<lparr>el_error := True\<rparr>)\<rparr>)"

section \<open>Stream assembly\<close>

definition maxReads :: nat where
  "maxReads = 1000"

text \<open>
  The response stream as the sequence of results that \<open>reader.read()\<close> gives before the
  stream is closed: a chunk of bytes (an undefined value counts as the empty chunk in the
  test \<open>value && value.length > 0\<close>) or a failing read. After the last item a read
  returns \<open>done\<close>.
\<close>

datatype read_item = Chunk "8 word list" | ReadFails string

text \<open>
  The \<open>while\<close> loop of \<open>streamToUint8Array\<close>: it returns what it logged and either the
  error it throws or \<open>readCount\<close> and the chunks when it is left.
\<close>

fun read_loop :: "nat \<Rightarrow> read_item list \<Rightarrow> 8 word list list
    \<Rightarrow> log_entry list \<times> (js_error + nat \<times> 8 word list list)" where
  "read_loop readCount [] chunks =
     (if readCount < maxReads then
        ([(Log, ''TTS_STREAM_SUCCESS: Stream processing completed'')], Inr (Suc readCount, chunks))
      else ([], Inr (readCount, chunks)))"
| "read_loop readCount (Chunk v # rest) chunks =
     (if readCount < maxReads then
        read_loop (Suc readCount) rest (if v \<noteq> [] then chunks @ [v] else chunks)
      else ([], Inr (readCount, chunks)))"
| "read_loop readCount (ReadFails m # rest) chunks =
     (if readCount < maxReads then
        ([(Err, ''TTS_STREAM_ERROR: Error reading from stream'')],
         Inl (Error (''STREAM_READ_ERROR: '' @ m)))
      else ([], Inr (readCount, chunks)))"

definition streamToUint8Array :: "read_item list option
    \<Rightarrow> log_entry list \<times> (js_error + 8 word list)" where
  "streamToUint8Array stream =
     (case stream of
        None \<Rightarrow> ([], Inl (Error ''STREAM_ERROR: No stream provided''))
      | Some reads \<Rightarrow>
          (case read_loop 0 reads [] of
             (l, Inl error) \<Rightarrow>
               (l @ [(Err, ''TTS_STREAM_ERROR: Stream processing failed'')], Inl error)
           | (l, Inr (readCount, chunks)) \<Rightarrow>
               (let l1 = (if readCount \<ge> maxReads then
                            l @ [(Warn, ''TTS_STREAM_WARNING: Maximum read attempts reached, stream may be incomplete'')]
                          else l)
                in if chunks = [] then
                     (l1, Inl (Error ''STREAM_ERROR: No data chunks received from stream''))
                   else if length (concat chunks) = 0 then
                     (l1 @ [(Err, ''TTS_STREAM_ERROR: Failed to combine stream chunks'')],
                      Inl (Error ''STREAM_COMBINE_ERROR: STREAM_ERROR: Total stream length is zero''))
                   else
                     (l1 @ [(Log, ''TTS_STREAM_SUCCESS: Processing chunks'')],
                      Inr (concat chunks)))))"

section \<open>Synthesis and playback\<close>

text \<open>
  How a block of code is left: normally, or by an exception, each with the state reached.
\<close>

datatype outcome = Returns tts_state | Throws js_error tts_state

definition settle_promise :: "nat \<Rightarrow> settle \<Rightarrow> tts_state \<Rightarrow> tts_state" where
  "settle_promise call r s = s\<lparr>promises := promises s @ [(call, r)]\<rparr>"

subsection \<open>The error handler of \<open>synthesizeAndPlayAudio\<close>\<close>

definition classify :: "js_error \<Rightarrow> errorType" where
  "classify error =
     (if err_message error = ''API_TIMEOUT'' then TIMEOUT
      else if err_name error = ''CredentialsProviderError'' \<or> err_code error = Some ''CredentialsError''
        then CREDENTIALS
      else if err_name error = ''NetworkingError'' \<or> err_code error = Some ''NetworkingError''
        then NETWORK
      else if err_code error = Some ''Throttling'' \<or> err_code error = Some ''ThrottlingException''
        then RATE_LIMIT
      else if err_code error = Some ''InvalidParameterValue'' \<or> err_code error = Some ''ValidationException''
        then PARAMETER
      else if err_code error = Some ''ServiceUnavailable'' \<or> err_code error = Some ''InternalFailure''
        then SERVICE
      else UNKNOWN)"

definition synthesis_catch :: "js_error \<Rightarrow> int \<Rightarrow> tts_state \<Rightarrow> tts_state" where
  "synthesis_catch error now s =
     (case classify error of
        TIMEOUT \<Rightarrow>
          recordTtsError TIMEOUT now
            (say Warn ''TTS_TIMEOUT_ERROR: AWS Polly API request timed out'' s)
      | CREDENTIALS \<Rightarrow>
          recordTtsError CREDENTIALS now
            ((say Err ''TTS_CREDENTIALS_ERROR: AWS credentials are invalid or expired'' s)
               \<lparr>pollyClient := False\<rparr>)
      | NETWORK \<Rightarrow>
          recordTtsError NETWORK now
            (say Warn ''TTS_NETWORK_ERROR: Network connectivity issue during TTS request'' s)
      | RATE_LIMIT \<Rightarrow>
          recordTtsError RATE_LIMIT now
            (say Warn ''TTS_RATE_LIMIT_ERROR: AWS Polly API rate limit exceeded'' s)
      | PARAMETER \<Rightarrow>
          say Err ''TTS_PARAMETER_ERROR: Invalid parameters sent to Polly API'' s
      | SERVICE \<Rightarrow>
          recordTtsError SERVICE now
            (say Warn ''TTS_SERVICE_ERROR: AWS Polly service temporarily unavailable'' s)
      | UNKNOWN \<Rightarrow>
          recordTtsError UNKNOWN now
            (say Warn ''TTS_UNKNOWN_ERROR: Unexpected error during text-to-speech'' s))"

subsection \<open>Autoplay\<close>

datatype visibility = Visible | Hidden

datatype play_result = PlayResolves | PlayRejects js_error

text \<open>
  \<open>handleAutoplayOptimization\<close>, given the page visibility and how the first and the
  second call of \<open>play()\<close> settle. A \<open>play()\<close> that resolves leaves the element playing.
\<close>

definition handleAutoplayOptimization ::
    "visibility \<Rightarrow> play_result \<Rightarrow> play_result \<Rightarrow> nat \<Rightarrow> tts_state \<Rightarrow> outcome" where
  "handleAutoplayOptimization vis p1 p2 i s =
     (if vis = Hidden then Throws (Error ''NotAllowedError: Page not visible'') s
      else
        (case p1 of
           PlayResolves \<Rightarrow> Returns (set_paused i False s)
         | PlayRejects error \<Rightarrow>
             if err_name error = ''NotAllowedError'' then
               (let originalVolume = el_volume (elements s i);
                    s1 = set_volume i (1 / 10) s
                in case p2 of
                     PlayResolves \<Rightarrow>
                       Returns ((set_paused i False s1)
                         \<lparr>volumeTimers := volumeTimers s1 @ [(i, originalVolume)]\<rparr>)
                   | PlayRejects secondError \<Rightarrow>
                       Throws secondError (set_volume i originalVolume s1))
             else Throws error s))"

text \<open>
  \<open>handleAutoplayBlocked\<close> attaches \<open>playOnInteraction\<close> to the next click, key press or
  touch and starts the 30 s clean-up timer.
\<close>

definition handleAutoplayBlocked :: "nat \<Rightarrow> tts_state \<Rightarrow> tts_state" where
  "handleAutoplayBlocked i s =
     s\<lparr>interactionListeners := interactionListeners s @ [i],
       cleanupTimers := cleanupTimers s @ [i]\<rparr>"

definition playOnInteraction :: "nat \<Rightarrow> play_result \<Rightarrow> tts_state \<Rightarrow> tts_state" where
  "playOnInteraction i p s =
     (let s1 = s\<lparr>interactionListeners := removeAll i (interactionListeners s)\<rparr>
      in case p of
           PlayResolves \<Rightarrow>
             add_active i (say Log ''TTS_AUDIO_SUCCESS: Delayed audio playback after user interaction''
               (set_paused i False s1))
         | PlayRejects _ \<Rightarrow> revoke i s1)"

definition autoplayTimeout :: "nat \<Rightarrow> tts_state \<Rightarrow> tts_state" where
  "autoplayTimeout i s =
     revoke i (s\<lparr>interactionListeners := removeAll i (interactionListeners s),
                 cleanupTimers := remove1 i (cleanupTimers s)\<rparr>)"

text \<open>The \<open>catch (playError)\<close> block of \<open>synthesizeAndPlayAudio\<close>.\<close>

definition play_catch :: "js_error \<Rightarrow> nat \<Rightarrow> tts_state \<Rightarrow> tts_state" where
  "play_catch playError i s =
     (let s1 = delete_active i s;
          s2 = (if err_name playError = ''NotAllowedError'' then
                  handleAutoplayBlocked i
                    (say Warn ''TTS_AUDIO_POLICY: Audio autoplay blocked by browser policy'' s1)
                else if err_name playError = ''NotSupportedError'' then
                  say Warn ''TTS_AUDIO_ERROR: Audio format not supported by browser'' s1
                else say Warn ''TTS_AUDIO_ERROR: Audio playback failed'' s1)
      in scheduleQueue (revoke i s2))"

definition record_success :: "int \<Rightarrow> tts_state \<Rightarrow> tts_state" where
  "record_success responseTime s =
     (let m = performanceMetrics s;
          n = successfulRequests m + 1
      in s\<lparr>performanceMetrics := m\<lparr>successfulRequests := n,
            averageResponseTime :=
              (averageResponseTime m * real (n - 1) + real_of_int responseTime) / real n,
            lastRequestTime := responseTime\<rparr>\<rparr>)"

subsection \<open>The body of \<open>synthesizeAndPlayAudio\<close>\<close>

definition maxTextLength :: nat where
  "maxTextLength = 3000"

definition truncateText :: "jsstring \<Rightarrow> tts_state \<Rightarrow> jsstring \<times> tts_state" where
  "truncateText text s =
     (if length text > maxTextLength then
        (take maxTextLength text,
         say Warn ''TTS_INPUT_ERROR: Text too long. Truncating to 3000 characters.'' s)
      else (text, s))"

datatype response = NoAudioStream | AudioStream "read_item list"

datatype send_result = SendRejects js_error | SendTimeout | SendResolves response

text \<open>
  Creating the audio element, adding it to the active set and starting playback. The
  setter of \<open>volume\<close> throws when the value is not a number in [0, 1].
\<close>

definition play_new_element ::
    "request \<Rightarrow> visibility \<Rightarrow> play_result \<Rightarrow> play_result \<Rightarrow> int \<Rightarrow> tts_state \<Rightarrow> outcome" where
  "play_new_element r vis p1 p2 now s =
     (case defaultVolume (audioSettings s) of
        NaN \<Rightarrow> Throws \<lparr>err_message = ''The provided double value is non-finite'',
                        err_name = ''TypeError'', err_code = None\<rparr> s
      | Num v \<Rightarrow>
          if 0 \<le> v \<and> v \<le> 1 then
            (let i = nextElement s;
                 s1 = s\<lparr>elements := (elements s)(i := new_element\<lparr>el_volume := v\<rparr>),
                        nextElement := i + 1,
                        activeAudioElements := activeAudioElements s @ [i]\<rparr>
             in case handleAutoplayOptimization vis p1 p2 i s1 of
                  Returns s2 \<Rightarrow>
                    Returns (record_success (now - req_start r)
                      (say Log ''TTS_AUDIO_SUCCESS: Audio playback started successfully'' s2))
                | Throws playError s2 \<Rightarrow> Returns (play_catch playError i s2))
          else Throws \<lparr>err_message = ''The volume provided is outside the range [0, 1]'',
                        err_name = ''IndexSizeError'', err_code = None\<rparr> s)"

text \<open>
  The \<open>try\<close> block from the moment the race between the remote call and the 10 s timer
  is decided.
\<close>

definition synthesis_try ::
    "request \<Rightarrow> send_result \<Rightarrow> visibility \<Rightarrow> play_result \<Rightarrow> play_result \<Rightarrow> int
      \<Rightarrow> tts_state \<Rightarrow> outcome" where
  "synthesis_try r res vis p1 p2 now s =
     (case res of
        SendTimeout \<Rightarrow> Throws (Error ''API_TIMEOUT'') s
      | SendRejects error \<Rightarrow> Throws error s
      | SendResolves NoAudioStream \<Rightarrow>
          Returns (say Warn ''TTS_API_ERROR: No audio stream received from Polly API'' s)
      | SendResolves (AudioStream reads) \<Rightarrow>
          (case streamToUint8Array (Some reads) of
             (l, Inl streamError) \<Rightarrow>
               Returns (say Err ''TTS_STREAM_ERROR: Failed to process audio stream''
                 (s\<lparr>console := console s @ l\<rparr>))
           | (l, Inr audioBytes) \<Rightarrow>
               if audioBytes = [] then
                 Returns (say Warn ''TTS_STREAM_ERROR: Empty audio data received''
                   (s\<lparr>console := console s @ l\<rparr>))
               else play_new_element r vis p1 p2 now (s\<lparr>console := console s @ l\<rparr>)))"

text \<open>The whole function from that moment: the \<open>try\<close> block and the \<open>catch\<close> around it.\<close>

definition synthesis_resume ::
    "request \<Rightarrow> send_result \<Rightarrow> visibility \<Rightarrow> play_result \<Rightarrow> play_result \<Rightarrow> int
      \<Rightarrow> tts_state \<Rightarrow> outcome" where
  "synthesis_resume r res vis p1 p2 now s =
     (case synthesis_try r res vis p1 p2 now s of
        Returns s' \<Rightarrow> Returns s'
      | Throws error s' \<Rightarrow> Returns (synthesis_catch error now s'))"

section \<open>Queue and \<open>speakText\<close>\<close>

text \<open>Leaving the \<open>while\<close> loop of \<open>processAudioQueue\<close>.\<close>

definition drain_exit :: "tts_state \<Rightarrow> tts_state" where
  "drain_exit s =
     (let s1 = s\<lparr>isProcessingQueue := False\<rparr>
      in if audioQueue s1 \<noteq> [] then scheduleQueue s1 else s1)"

text \<open>
  What the caller that awaits \<open>synthesizeAndPlayAudio\<close> does with its outcome: \<open>speakText\<close>
  settles its own promise (logging and rethrowing an exception); \<open>processAudioRequest\<close>
  calls \<open>resolve\<close> or \<open>reject\<close> of the queued call, and the drain loop goes on, through
  the pacing delay when entries remain.
\<close>

definition after_synthesis :: "origin \<Rightarrow> nat \<Rightarrow> outcome \<Rightarrow> tts_state" where
  "after_synthesis org call oc =
     (case org of
        Direct \<Rightarrow>
          (case oc of
             Returns s \<Rightarrow> settle_promise call Resolved s
           | Throws error s \<Rightarrow>
               settle_promise call (Rejected error)
                 (say Warn ''TTS_DIRECT_ERROR: Failed to process audio directly'' s))
      | Queued \<Rightarrow>
          (let s1 = (case oc of
                       Returns s \<Rightarrow> settle_promise call Resolved s
                     | Throws error s \<Rightarrow> settle_promise call (Rejected error) s)
           in if audioQueue s1 \<noteq> [] then s1\<lparr>pacingDelays := pacingDelays s1 + 1\<rparr>
              else drain_exit s1))"

text \<open>
  \<open>synthesizeAndPlayAudio\<close> up to its first suspension: the text is cut to 3000 units
  and trimmed, and the command is sent, which leaves a pending request. Without a client
  the call of \<open>send\<close> throws a \<open>TypeError\<close> into the \<open>catch\<close> block at once.
\<close>

definition synthesizeAndPlayAudio ::
    "jsstring \<Rightarrow> int \<Rightarrow> origin \<Rightarrow> nat \<Rightarrow> int \<Rightarrow> tts_state \<Rightarrow> tts_state" where
  "synthesizeAndPlayAudio text requestStartTime org call now s =
     (let (text', s1) = truncateText text s;
          s2 = say Log ''TTS_REQUEST: Synthesizing speech for text'' s1
      in if pollyClient s2 then
           s2\<lparr>pendingRequests := pendingRequests s2 @
                [\<lparr>req_call = call, req_text = trim text', req_start = requestStartTime,
                  req_origin = org\<rparr>]\<rparr>
         else
           after_synthesis org call
             (Returns (synthesis_catch
                \<lparr>err_message = ''Cannot read properties of null'', err_name = ''TypeError'',
                  err_code = None\<rparr> now s2)))"

text \<open>The head of the \<open>while\<close> loop of \<open>processAudioQueue\<close>.\<close>

definition drain_loop :: "int \<Rightarrow> tts_state \<Rightarrow> tts_state" where
  "drain_loop now s =
     (case audioQueue s of
        [] \<Rightarrow> drain_exit s
      | (text, call) # rest \<Rightarrow>
          if js_lt (active_size s) (maxConcurrentAudio (audioSettings s)) then
            synthesizeAndPlayAudio text now Queued call now
              (s\<lparr>audioQueue := rest,
                 performanceMetrics := (performanceMetrics s)
                   \<lparr>queuedRequests := queuedRequests (performanceMetrics s) - 1\<rparr>\<rparr>)
          else drain_exit s)"

definition processAudioQueue :: "int \<Rightarrow> tts_state \<Rightarrow> tts_state" where
  "processAudioQueue now s =
     (if isProcessingQueue s \<or> audioQueue s = [] then s
      else drain_loop now (s\<lparr>isProcessingQueue := True\<rparr>))"

text \<open>
  The first test of \<open>speakText\<close>:
  \<open>!text || typeof text !== 'string' || text.trim().length === 0\<close>.
\<close>

definition invalid_text :: "speak_arg \<Rightarrow> bool" where
  "invalid_text arg =
     (case arg of NonString \<Rightarrow> True | Text text \<Rightarrow> text = [] \<or> length (trim text) = 0)"

fun text_of :: "speak_arg \<Rightarrow> jsstring" where
  "text_of (Text text) = text"
| "text_of NonString = []"

text \<open>\<open>speakText\<close> up to its first suspension, called at time \<open>now\<close>.\<close>

definition speakText :: "speak_arg \<Rightarrow> int \<Rightarrow> tts_state \<Rightarrow> tts_state" where
  "speakText arg now s =
     (let call = nextCall s;
          s0 = s\<lparr>nextCall := call + 1,
                 performanceMetrics := (performanceMetrics s)
                   \<lparr>totalRequests := totalRequests (performanceMetrics s) + 1\<rparr>\<rparr>
      in if invalid_text arg then
           settle_promise call Resolved
             (say Warn ''TTS_INPUT_ERROR: Invalid or empty text provided to speakText'' s0)
         else if \<not> pollyClient s0 then
           settle_promise call Resolved
             (say Warn ''TTS_CLIENT_ERROR: Polly client not available, skipping TTS'' s0)
         else
           (let (disabled, s1) = isTtsTemporarilyDisabled now s0
            in if disabled then
                 settle_promise call Resolved
                   (say Warn ''TTS_CIRCUIT_BREAKER: TTS temporarily disabled due to repeated errors, skipping request'' s1)
               else
                 (let s2 = manageAudioConcurrency s1
                  in if js_ge (active_size s2) (maxConcurrentAudio (audioSettings s2)) then
                       (say Log ''TTS_QUEUE: Audio at capacity, queuing request'' s2)
                         \<lparr>performanceMetrics := (performanceMetrics s2)
                            \<lparr>queuedRequests := queuedRequests (performanceMetrics s2) + 1\<rparr>,
                          audioQueue := audioQueue s2 @ [(text_of arg, call)],
                          queueTimers := queueTimers s2 + 1\<rparr>
                     else synthesizeAndPlayAudio (text_of arg) now Direct call now s2)))"

section \<open>Events\<close>

text \<open>
  Everything that makes the module run: a call of an exported function, the settling
  of a pending remote call (with the page visibility and the results of \<open>play()\<close> that
  the rest of \<open>synthesizeAndPlayAudio\<close> meets), a timer, an event of an audio element or
  a user gesture. An event that cannot happen in a state (no such pending request,
  no such timer) yields \<open>None\<close>. \<open>Respond\<close> runs \<open>synthesizeAndPlayAudio\<close> from the
  response to its end in one step: the runs covered are those in which no other handler
  runs between the arrival of the response and the settling of \<open>play()\<close> (up to the
  creation of the element the function does not touch the shared state at all). The
  delays of the timers are not measured: a pending timer may fire at any later step.
\<close>

datatype event =
    Initialize aws_config
  | Configure settings_patch
  | Speak speak_arg int
  | Respond nat send_result visibility play_result play_result int
  | QueueTimer int
  | PacingDone int
  | FadeTick nat
  | AudioEnded nat
  | AudioError nat
  | PauseEvent nat bool
  | Interaction nat play_result
  | AutoplayTimeout nat
  | VolumeTimer
  | GetStatus int
  | IsAvailable int
  | ResetErrors

definition playing :: "tts_state \<Rightarrow> nat \<Rightarrow> bool" where
  "playing s i \<longleftrightarrow> i < nextElement s \<and> \<not> el_paused (elements s i) \<and> \<not> el_ended (elements s i)"

fun step :: "event \<Rightarrow> tts_state \<Rightarrow> tts_state option" where
  "step (Initialize cfg) s = Some (initializePollyClient cfg s)"
| "step (Configure p) s = Some (configureAudioSettings p s)"
| "step (Speak arg now) s = Some (speakText arg now s)"
| "step (Respond call res vis p1 p2 now) s =
     (case filter (\<lambda>r. req_call r = call) (pendingRequests s) of
        [] \<Rightarrow> None
      | r # _ \<Rightarrow>
          Some (after_synthesis (req_origin r) call
            (synthesis_resume r res vis p1 p2 now
              (s\<lparr>pendingRequests := filter (\<lambda>r. req_call r \<noteq> call) (pendingRequests s)\<rparr>))))"
| "step (QueueTimer now) s =
     (if queueTimers s = 0 then None
      else Some (processAudioQueue now (s\<lparr>queueTimers := queueTimers s - 1\<rparr>)))"
| "step (PacingDone now) s =
     (if pacingDelays s = 0 then None
      else Some (drain_loop now (s\<lparr>pacingDelays := pacingDelays s - 1\<rparr>)))"
| "step (FadeTick k) s =
     (if k < length (fadeIntervals s) then Some (fadeTick k s) else None)"
| "step (AudioEnded i) s = (if playing s i then Some (audio_ended i s) else None)"
| "step (AudioError i) s = (if i < nextElement s then Some (audio_error i s) else None)"
| "step (PauseEvent i atStart) s =
     (if i < nextElement s \<and> el_paused (elements s i) then Some (on_pause atStart i s) else None)"
| "step (Interaction i p) s =
     (if i \<in> set (interactionListeners s) then Some (playOnInteraction i p s) else None)"
| "step (AutoplayTimeout i) s =
     (if i \<in> set (cleanupTimers s) then Some (autoplayTimeout i s) else None)"
| "step VolumeTimer s =
     (case volumeTimers s of
        [] \<Rightarrow> None
      | (i, v) # rest \<Rightarrow> Some (set_volume i v (s\<lparr>volumeTimers := rest\<rparr>)))"
| "step (GetStatus now) s = Some (snd (getTtsStatus now s))"
| "step (IsAvailable now) s = Some (snd (isPollyAvailable now s))"
| "step ResetErrors s = Some (resetTtsErrors s)"

fun run :: "event list \<Rightarrow> tts_state \<Rightarrow> tts_state option" where
  "run [] s = Some s"
| "run (e # es) s = (case step e s of None \<Rightarrow> None | Some s' \<Rightarrow> run es s')"

section \<open>Auxiliary notions for the properties\<close>

fun state_of :: "outcome \<Rightarrow> tts_state" where
  "state_of (Returns s) = s"
| "state_of (Throws error s) = s"

text \<open>
  A run of failing synthesis attempts, one after the other: each is an error caught by
  \<open>synthesizeAndPlayAudio\<close> at some time.
\<close>

fun failures :: "(js_error \<times> int) list \<Rightarrow> tts_state \<Rightarrow> tts_state" where
  "failures [] s = s"
| "failures ((error, now) # fs) s = failures fs (synthesis_catch error now s)"

text \<open>Calls of \<open>speakText\<close> one after the other, each with its argument and its time.\<close>

fun speak_calls :: "(speak_arg \<times> int) list \<Rightarrow> tts_state \<Rightarrow> tts_state" where
  "speak_calls [] s = s"
| "speak_calls ((arg, now) # cs) s = speak_calls cs (speakText arg now s)"

definition in_range :: "real \<Rightarrow> real \<Rightarrow> jsnum \<Rightarrow> bool" where
  "in_range lo hi v = (case v of NaN \<Rightarrow> False | Num x \<Rightarrow> lo \<le> x \<and> x \<le> hi)"

text \<open>The bytes of a read result, and whether it is a chunk at all.\<close>

fun chunk_bytes :: "read_item \<Rightarrow> 8 word list" where
  "chunk_bytes (Chunk v) = v"
| "chunk_bytes (ReadFails m) = []"

fun is_chunk :: "read_item \<Rightarrow> bool" where
  "is_chunk (Chunk v) = True"
| "is_chunk (ReadFails m) = False"

fun returns :: "outcome \<Rightarrow> bool" where
  "returns (Returns s) = True"
| "returns (Throws error s) = False"

text \<open>Observations of a state used in the properties.\<close>

definition all_playing :: "tts_state \<Rightarrow> bool" where
  "all_playing s = list_all (playing s) (activeAudioElements s)"

definition revocations :: "nat \<Rightarrow> tts_state \<Rightarrow> nat" where
  "revocations i s = el_revoked (elements s i)"

definition limit :: "tts_state \<Rightarrow> jsnum" where
  "limit s = maxConcurrentAudio (audioSettings s)"

text \<open>The text that \<open>synthesizeAndPlayAudio\<close> puts into the request.\<close>

definition sent_text :: "jsstring \<Rightarrow> jsstring" where
  "sent_text t = trim (if maxTextLength < length t then take maxTextLength t else t)"

text \<open>Concrete data for the examples: a state with a client, errors, a response.\<close>

definition ready_state :: tts_state where
  "ready_state =
     initializePollyClient \<lparr>accessKeyId = [0x41, 0x4B], secretAccessKey = [0x53, 0x4B]\<rparr>
       initial_state"

definition no_patch :: settings_patch where
  "no_patch = \<lparr>new_maxConcurrentAudio = None, new_defaultVolume = None,
     new_fadeOutDuration = None, new_queueProcessingDelay = None\<rparr>"

definition aws_error :: "string \<Rightarrow> string \<Rightarrow> js_error" where
  "aws_error name code = \<lparr>err_message = ''request failed'', err_name = name, err_code = Some code\<rparr>"

definition request_A :: request where
  "request_A = \<lparr>req_call = 0, req_text = [0x41], req_start = 0, req_origin = Direct\<rparr>"

definition good_response :: send_result where
  "good_response = SendResolves (AudioStream [Chunk [0x49, 0x44, 0x33]])"

definition not_allowed :: play_result where
  "not_allowed = PlayRejects \<lparr>err_message = ''play() failed because the user did not interact with the document first'',
     err_name = ''NotAllowedError'', err_code = None\<rparr>"

definition limit_patch :: "real \<Rightarrow> settings_patch" where
  "limit_patch n = no_patch\<lparr>new_maxConcurrentAudio := Some (Num n)\<rparr>"

text \<open>
  The state the game is in after it has set the limit to 2 and two calls of \<open>speakText\<close>
  have both led to audio that is playing.
\<close>

definition playing_two :: tts_state where
  "playing_two = the (run
     [Configure (limit_patch 2), Speak (Text [0x41]) 0, Speak (Text [0x42]) 0,
      Respond 0 good_response Visible PlayResolves PlayResolves 400,
      Respond 1 good_response Visible PlayResolves PlayResolves 450] ready_state)"

definition five_times :: "js_error \<Rightarrow> int \<Rightarrow> (js_error \<times> int) list" where
  "five_times error t = [(error, t), (error, t), (error, t), (error, t), (error, t)]"

section \<open>Basic facts\<close>

lemma say_fields [simp]:
  shows "ttsErrorCount (say l m s) = ttsErrorCount s"
    and "lastErrorTime (say l m s) = lastErrorTime s"
    and "pollyClient (say l m s) = pollyClient s"
    and "activeAudioElements (say l m s) = activeAudioElements s"
    and "audioQueue (say l m s) = audioQueue s"
    and "pendingRequests (say l m s) = pendingRequests s"
    and "promises (say l m s) = promises s"
    and "nextElement (say l m s) = nextElement s"
    and "nextCall (say l m s) = nextCall s"
    and "elements (say l m s) = elements s"
    and "interactionListeners (say l m s) = interactionListeners s"
    and "cleanupTimers (say l m s) = cleanupTimers s"
    and "audioSettings (say l m s) = audioSettings s"
    and "performanceMetrics (say l m s) = performanceMetrics s"
    and "queueTimers (say l m s) = queueTimers s"
    and "fadeIntervals (say l m s) = fadeIntervals s"
    and "isProcessingQueue (say l m s) = isProcessingQueue s"
    and "console (say l m s) = console s @ [(l, m)]"
  by (simp_all add: say_def)

lemma recordTtsError_fields [simp]:
  shows "ttsErrorCount (recordTtsError k now s) = ttsErrorCount s + 1"
    and "lastErrorTime (recordTtsError k now s) = Some now"
    and "pollyClient (recordTtsError k now s) = pollyClient s"
  by (simp_all add: recordTtsError_def Let_def)

lemma evict_fields [simp]:
  shows "pendingRequests (fold (\<lambda>element. revoke element \<circ> delete_active element) xs s) = pendingRequests s"
    and "audioQueue (fold (\<lambda>element. revoke element \<circ> delete_active element) xs s) = audioQueue s"
    and "ttsErrorCount (fold (\<lambda>element. revoke element \<circ> delete_active element) xs s) = ttsErrorCount s"
    and "lastErrorTime (fold (\<lambda>element. revoke element \<circ> delete_active element) xs s) = lastErrorTime s"
    and "pollyClient (fold (\<lambda>element. revoke element \<circ> delete_active element) xs s) = pollyClient s"
    and "promises (fold (\<lambda>element. revoke element \<circ> delete_active element) xs s) = promises s"
    and "nextCall (fold (\<lambda>element. revoke element \<circ> delete_active element) xs s) = nextCall s"
    and "nextElement (fold (\<lambda>element. revoke element \<circ> delete_active element) xs s) = nextElement s"
    and "audioSettings (fold (\<lambda>element. revoke element \<circ> delete_active element) xs s) = audioSettings s"
    and "performanceMetrics (fold (\<lambda>element. revoke element \<circ> delete_active element) xs s) = performanceMetrics s"
    and "console (fold (\<lambda>element. revoke element \<circ> delete_active element) xs s) = console s"
    and "queueTimers (fold (\<lambda>element. revoke element \<circ> delete_active element) xs s) = queueTimers s"
    and "interactionListeners (fold (\<lambda>element. revoke element \<circ> delete_active element) xs s) = interactionListeners s"
  by (induction xs arbitrary: s) (simp_all add: revoke_def delete_active_def)

lemma fadeOutAudio_fields [simp]:
  shows "pendingRequests (fadeOutAudio i s) = pendingRequests s"
    and "audioQueue (fadeOutAudio i s) = audioQueue s"
    and "ttsErrorCount (fadeOutAudio i s) = ttsErrorCount s"
    and "lastErrorTime (fadeOutAudio i s) = lastErrorTime s"
    and "pollyClient (fadeOutAudio i s) = pollyClient s"
    and "promises (fadeOutAudio i s) = promises s"
    and "nextCall (fadeOutAudio i s) = nextCall s"
    and "nextElement (fadeOutAudio i s) = nextElement s"
    and "audioSettings (fadeOutAudio i s) = audioSettings s"
    and "performanceMetrics (fadeOutAudio i s) = performanceMetrics s"
    and "console (fadeOutAudio i s) = console s"
    and "queueTimers (fadeOutAudio i s) = queueTimers s"
    and "interactionListeners (fadeOutAudio i s) = interactionListeners s"
  by (simp_all add: fadeOutAudio_def)

lemma manage_fields [simp]:
  shows "pendingRequests (manageAudioConcurrency s) = pendingRequests s"
    and "audioQueue (manageAudioConcurrency s) = audioQueue s"
    and "ttsErrorCount (manageAudioConcurrency s) = ttsErrorCount s"
    and "lastErrorTime (manageAudioConcurrency s) = lastErrorTime s"
    and "pollyClient (manageAudioConcurrency s) = pollyClient s"
    and "promises (manageAudioConcurrency s) = promises s"
    and "nextCall (manageAudioConcurrency s) = nextCall s"
    and "nextElement (manageAudioConcurrency s) = nextElement s"
    and "audioSettings (manageAudioConcurrency s) = audioSettings s"
    and "performanceMetrics (manageAudioConcurrency s) = performanceMetrics s"
    and "console (manageAudioConcurrency s) = console s"
    and "queueTimers (manageAudioConcurrency s) = queueTimers s"
    and "interactionListeners (manageAudioConcurrency s) = interactionListeners s"
  by (simp_all add: manageAudioConcurrency_def Let_def split: list.splits)

section \<open>Circuit breaker\<close>

lemma synthesis_catch_counted:
  "classify error \<noteq> PARAMETER \<Longrightarrow>
     ttsErrorCount (synthesis_catch error now s) = ttsErrorCount s + 1 \<and>
     lastErrorTime (synthesis_catch error now s) = Some now"
  by (cases "classify error") (simp_all add: synthesis_catch_def)

lemma synthesis_catch_parameter:
  "classify error = PARAMETER \<Longrightarrow>
     ttsErrorCount (synthesis_catch error now s) = ttsErrorCount s \<and>
     lastErrorTime (synthesis_catch error now s) = lastErrorTime s"
  by (simp add: synthesis_catch_def)

lemma failures_count:
  "\<forall>f \<in> set fs. classify (fst f) \<noteq> PARAMETER \<Longrightarrow>
     ttsErrorCount (failures fs s) = ttsErrorCount s + length fs"
  by (induction fs s rule: failures.induct) (simp_all add: synthesis_catch_counted)

lemma failures_last:
  "fs \<noteq> [] \<Longrightarrow> \<forall>f \<in> set fs. classify (fst f) \<noteq> PARAMETER \<Longrightarrow>
     lastErrorTime (failures fs s) = Some (snd (last fs))"
proof (induction fs s rule: failures.induct)
  case (1 s)
  then show ?case by simp
next
  case (2 error now fs s)
  then show ?case
    by (cases fs) (simp_all add: synthesis_catch_counted)
qed

lemma breaker_open:
  assumes "MAX_ERROR_COUNT \<le> ttsErrorCount s" and "lastErrorTime s = Some t"
    and "now - t \<le> ERROR_RESET_TIME"
  shows "isTtsTemporarilyDisabled now s = (True, s)"
  using assms by (simp add: isTtsTemporarilyDisabled_def)

lemma breaker_reset:
  assumes "MAX_ERROR_COUNT \<le> ttsErrorCount s" and "lastErrorTime s = Some t"
    and "ERROR_RESET_TIME < now - t" and "t \<noteq> 0"
  shows "isTtsTemporarilyDisabled now s =
    (False, (say Log ''TTS_RECOVERY: Error count reset after timeout, re-enabling TTS'' s)
                            \<lparr>ttsErrorCount := 0, lastErrorTime := None\<rparr>)"
  using assms by (simp add: isTtsTemporarilyDisabled_def)

lemma speakText_refused:
  assumes "MAX_ERROR_COUNT \<le> ttsErrorCount s" and "lastErrorTime s = Some t"
    and "now - t \<le> ERROR_RESET_TIME"
  shows "pendingRequests (speakText arg now s) = pendingRequests s \<and>
         audioQueue (speakText arg now s) = audioQueue s \<and>
         ttsErrorCount (speakText arg now s) = ttsErrorCount s \<and>
         lastErrorTime (speakText arg now s) = lastErrorTime s"
  using assms
  by (simp add: speakText_def Let_def breaker_open settle_promise_def)

lemma speak_calls_refused:
  assumes "MAX_ERROR_COUNT \<le> ttsErrorCount s" and "lastErrorTime s = Some t"
    and "\<forall>c \<in> set cs. snd c - t \<le> ERROR_RESET_TIME"
  shows "pendingRequests (speak_calls cs s) = pendingRequests s \<and>
         audioQueue (speak_calls cs s) = audioQueue s \<and>
         ttsErrorCount (speak_calls cs s) = ttsErrorCount s \<and>
         lastErrorTime (speak_calls cs s) = lastErrorTime s"
  using assms
proof (induction cs s rule: speak_calls.induct)
  case (1 s)
  then show ?case by simp
next
  case (2 arg now cs s)
  have r: "pendingRequests (speakText arg now s) = pendingRequests s \<and>
         audioQueue (speakText arg now s) = audioQueue s \<and>
         ttsErrorCount (speakText arg now s) = ttsErrorCount s \<and>
         lastErrorTime (speakText arg now s) = lastErrorTime s"
    using "2.prems" by (intro speakText_refused[where t = t]) simp_all
  with "2.prems" "2.IH" show ?case by simp
qed

lemma speakText_admitted:
  assumes "MAX_ERROR_COUNT \<le> ttsErrorCount s" and "lastErrorTime s = Some t"
    and "ERROR_RESET_TIME < now - t" and "t \<noteq> 0" and "pollyClient s" and "\<not> invalid_text arg"
  shows "ttsErrorCount (speakText arg now s) = 0 \<and>
         lastErrorTime (speakText arg now s) = None \<and>
         (length (pendingRequests (speakText arg now s)) = length (pendingRequests s) + 1 \<or>
          length (audioQueue (speakText arg now s)) = length (audioQueue s) + 1)"
  using assms
  by (simp add: speakText_def Let_def breaker_reset[where t = t] synthesizeAndPlayAudio_def
      truncateText_def)

text \<open>
  Claim C2, as amended. After five failures in a row that the breaker counts, the last
  one at time \<open>t\<close>, every later call of \<open>speakText\<close> made while at most 300000 ms have
  passed since \<open>t\<close> returns without sending a request and without entering the queue, and
  leaves the counter and the time stamp as they are. The first call with valid text made
  when more than 300000 ms have passed resets the counter to 0, clears the time stamp and
  is admitted (sent or queued), provided the client is still there, that is, no
  credentials failure has removed it.
\<close>

theorem breaker_cooldown:
  assumes "length fs = 5" and "\<forall>f \<in> set fs. classify (fst f) \<noteq> PARAMETER"
  shows "((\<forall>c \<in> set cs. snd c - snd (last fs) \<le> ERROR_RESET_TIME) \<longrightarrow>
            pendingRequests (speak_calls cs (failures fs s)) = pendingRequests (failures fs s) \<and>
            audioQueue (speak_calls cs (failures fs s)) = audioQueue (failures fs s) \<and>
            ttsErrorCount (speak_calls cs (failures fs s)) = ttsErrorCount (failures fs s) \<and>
            lastErrorTime (speak_calls cs (failures fs s)) = Some (snd (last fs))) \<and>
         (ERROR_RESET_TIME < now - snd (last fs) \<and> snd (last fs) \<noteq> 0 \<and>
          pollyClient (failures fs s) \<and> \<not> invalid_text arg \<longrightarrow>
            ttsErrorCount (speakText arg now (failures fs s)) = 0 \<and>
            lastErrorTime (speakText arg now (failures fs s)) = None \<and>
            (length (pendingRequests (speakText arg now (failures fs s))) =
               length (pendingRequests (failures fs s)) + 1 \<or>
             length (audioQueue (speakText arg now (failures fs s))) =
               length (audioQueue (failures fs s)) + 1))"
proof -
  from assms have ne: "fs \<noteq> []" by auto
  have c: "MAX_ERROR_COUNT \<le> ttsErrorCount (failures fs s)"
    using assms by (simp add: failures_count MAX_ERROR_COUNT_def)
  have l: "lastErrorTime (failures fs s) = Some (snd (last fs))"
    using ne assms(2) by (rule failures_last)
  show ?thesis
    using speak_calls_refused[OF c l, of cs] speakText_admitted[OF c l, of now arg]
    by (simp add: l)
qed

theorem breaker_cooldown_witness:
  "length (five_times (Error ''API_TIMEOUT'') 1000) = 5 \<and>
   classify (Error ''API_TIMEOUT'') \<noteq> PARAMETER \<and>
   pendingRequests (speak_calls [(Text [0x41], 2000), (Text [0x42], 301000)]
      (failures (five_times (Error ''API_TIMEOUT'') 1000) ready_state)) = [] \<and>
   ttsErrorCount (speakText (Text [0x41]) 301001
      (failures (five_times (Error ''API_TIMEOUT'') 1000) ready_state)) = 0"
  using breaker_cooldown[of "five_times (Error ''API_TIMEOUT'') 1000"
      "[(Text [0x41], 2000), (Text [0x42], 301000)]" ready_state 301001 "Text [0x41]"]
  by (simp add: five_times_def classify_def Error_def ERROR_RESET_TIME_def ready_state_def
      initializePollyClient_def initial_state_def trim_def isWhiteSpace_def invalid_text_def
      synthesis_catch_def recordTtsError_def say_def Let_def MAX_ERROR_COUNT_def)

theorem breaker_boundary_counterexample:
  "ttsErrorCount (speakText (Text [0x41]) 301000
      (failures (five_times (Error ''API_TIMEOUT'') 1000) ready_state)) = 5 \<and>
   pendingRequests (speakText (Text [0x41]) 301000
      (failures (five_times (Error ''API_TIMEOUT'') 1000) ready_state)) = [] \<and>
   audioQueue (speakText (Text [0x41]) 301000
      (failures (five_times (Error ''API_TIMEOUT'') 1000) ready_state)) = [] \<and>
   ttsErrorCount (speakText (Text [0x41]) 901000
      (failures (five_times (aws_error ''CredentialsProviderError'' ''CredentialsError'') 1000)
         ready_state)) = 5 \<and>
   pendingRequests (speakText (Text [0x41]) 901000
      (failures (five_times (aws_error ''CredentialsProviderError'' ''CredentialsError'') 1000)
         ready_state)) = []"
  by (simp add: five_times_def classify_def Error_def aws_error_def ERROR_RESET_TIME_def
      ready_state_def initializePollyClient_def initial_state_def trim_def isWhiteSpace_def
      invalid_text_def synthesis_catch_def recordTtsError_def say_def Let_def
      MAX_ERROR_COUNT_def speakText_def isTtsTemporarilyDisabled_def settle_promise_def)

text \<open>
  Claim C10. Reading the status is not free of effects on the breaker: when the counter
  has reached the threshold and the cooldown has passed since the last failure (whose
  time stamp, taken from the clock, is not 0), \<open>getTtsStatus\<close> leaves the counter at 0
  and the time stamp cleared, while the status it returns still shows the old counter;
  after it the breaker is closed whatever the time.
\<close>

theorem getTtsStatus_resets_breaker:
  assumes "MAX_ERROR_COUNT \<le> ttsErrorCount s" and "lastErrorTime s = Some t" and "t \<noteq> 0"
    and "ERROR_RESET_TIME < now - t"
  shows "ttsErrorCount (snd (getTtsStatus now s)) = 0 \<and>
         lastErrorTime (snd (getTtsStatus now s)) = None \<and>
         errorCount (fst (getTtsStatus now s)) = ttsErrorCount s \<and>
         \<not> temporarilyDisabled (fst (getTtsStatus now s)) \<and>
         \<not> fst (isTtsTemporarilyDisabled now' (snd (getTtsStatus now s)))"
  using assms
  by (simp add: getTtsStatus_def breaker_reset[where t = t])
     (simp add: isTtsTemporarilyDisabled_def MAX_ERROR_COUNT_def)

theorem getTtsStatus_resets_breaker_witness:
  "MAX_ERROR_COUNT \<le> ttsErrorCount (failures (five_times (Error ''API_TIMEOUT'') 1000) ready_state) \<and>
   lastErrorTime (failures (five_times (Error ''API_TIMEOUT'') 1000) ready_state) = Some 1000 \<and>
   ERROR_RESET_TIME < 400000 - (1000::int) \<and>
   ttsErrorCount (snd (getTtsStatus 400000
     (failures (five_times (Error ''API_TIMEOUT'') 1000) ready_state))) = 0 \<and>
   errorCount (fst (getTtsStatus 400000
     (failures (five_times (Error ''API_TIMEOUT'') 1000) ready_state))) = 5"
  using getTtsStatus_resets_breaker[of
      "failures (five_times (Error ''API_TIMEOUT'') 1000) ready_state" 1000 400000]
  by (simp add: five_times_def classify_def Error_def ERROR_RESET_TIME_def
      synthesis_catch_def MAX_ERROR_COUNT_def ready_state_def initializePollyClient_def
      initial_state_def trim_def isWhiteSpace_def)

section \<open>Failure accounting\<close>

text \<open>
  Claim C3. Of the failures of a synthesis attempt, the ones classified by the error
  handler raise the counter by one and stamp the time unless they are parameter errors:
  the timeout, credentials, network, rate-limit, service and unknown kinds count, the
  parameter kind does not. A failure of the stream assembly leaves the counter and the
  time stamp alone, and so does a call of \<open>speakText\<close> with invalid input.
\<close>

theorem failure_counting:
  "(classify error \<in> {TIMEOUT, CREDENTIALS, NETWORK, RATE_LIMIT, SERVICE, UNKNOWN} \<longrightarrow>
      ttsErrorCount (state_of (synthesis_resume r (SendRejects error) vis p1 p2 now s))
        = ttsErrorCount s + 1 \<and>
      lastErrorTime (state_of (synthesis_resume r (SendRejects error) vis p1 p2 now s))
        = Some now) \<and>
   (classify error = PARAMETER \<longrightarrow>
      ttsErrorCount (state_of (synthesis_resume r (SendRejects error) vis p1 p2 now s))
        = ttsErrorCount s \<and>
      lastErrorTime (state_of (synthesis_resume r (SendRejects error) vis p1 p2 now s))
        = lastErrorTime s) \<and>
   ttsErrorCount (state_of (synthesis_resume r SendTimeout vis p1 p2 now s)) = ttsErrorCount s + 1 \<and>
   lastErrorTime (state_of (synthesis_resume r SendTimeout vis p1 p2 now s)) = Some now \<and>
   (snd (streamToUint8Array (Some reads)) = Inl streamError \<longrightarrow>
      ttsErrorCount (state_of (synthesis_resume r (SendResolves (AudioStream reads)) vis p1 p2 now s))
        = ttsErrorCount s \<and>
      lastErrorTime (state_of (synthesis_resume r (SendResolves (AudioStream reads)) vis p1 p2 now s))
        = lastErrorTime s) \<and>
   (invalid_text arg \<longrightarrow>
      ttsErrorCount (speakText arg now s) = ttsErrorCount s \<and>
      lastErrorTime (speakText arg now s) = lastErrorTime s)"
proof -
  have a: "classify error \<noteq> PARAMETER \<Longrightarrow>
      ttsErrorCount (state_of (synthesis_resume r (SendRejects error) vis p1 p2 now s))
        = ttsErrorCount s + 1 \<and>
      lastErrorTime (state_of (synthesis_resume r (SendRejects error) vis p1 p2 now s))
        = Some now"
    by (simp add: synthesis_resume_def synthesis_try_def synthesis_catch_counted)
  have b: "classify error = PARAMETER \<Longrightarrow>
      ttsErrorCount (state_of (synthesis_resume r (SendRejects error) vis p1 p2 now s))
        = ttsErrorCount s \<and>
      lastErrorTime (state_of (synthesis_resume r (SendRejects error) vis p1 p2 now s))
        = lastErrorTime s"
    by (simp add: synthesis_resume_def synthesis_try_def synthesis_catch_parameter)
  have c: "ttsErrorCount (state_of (synthesis_resume r SendTimeout vis p1 p2 now s)) = ttsErrorCount s + 1 \<and>
   lastErrorTime (state_of (synthesis_resume r SendTimeout vis p1 p2 now s)) = Some now"
    by (simp add: synthesis_resume_def synthesis_try_def synthesis_catch_counted classify_def
        Error_def)
  have d: "snd (streamToUint8Array (Some reads)) = Inl streamError \<Longrightarrow>
      ttsErrorCount (state_of (synthesis_resume r (SendResolves (AudioStream reads)) vis p1 p2 now s))
        = ttsErrorCount s \<and>
      lastErrorTime (state_of (synthesis_resume r (SendResolves (AudioStream reads)) vis p1 p2 now s))
        = lastErrorTime s"
    by (cases "streamToUint8Array (Some reads)")
       (simp add: synthesis_resume_def synthesis_try_def)
  have e: "invalid_text arg \<Longrightarrow>
      ttsErrorCount (speakText arg now s) = ttsErrorCount s \<and>
      lastErrorTime (speakText arg now s) = lastErrorTime s"
    by (simp add: speakText_def Let_def settle_promise_def)
  from a b c d e show ?thesis by auto
qed

theorem failure_counting_witness:
  "classify (Error ''API_TIMEOUT'') = TIMEOUT \<and>
   classify (aws_error ''CredentialsProviderError'' ''CredentialsError'') = CREDENTIALS \<and>
   classify (aws_error ''NetworkingError'' ''NetworkingError'') = NETWORK \<and>
   classify (aws_error ''ThrottlingException'' ''ThrottlingException'') = RATE_LIMIT \<and>
   classify (aws_error ''ServiceUnavailableException'' ''ServiceUnavailable'') = SERVICE \<and>
   classify (Error ''socket hang up'') = UNKNOWN \<and>
   classify (aws_error ''ValidationException'' ''ValidationException'') = PARAMETER \<and>
   ttsErrorCount (state_of (synthesis_resume request_A
     (SendRejects (aws_error ''ThrottlingException'' ''ThrottlingException''))
     Visible PlayResolves PlayResolves 7 ready_state)) = 1 \<and>
   ttsErrorCount (state_of (synthesis_resume request_A
     (SendRejects (aws_error ''ValidationException'' ''ValidationException''))
     Visible PlayResolves PlayResolves 7 ready_state)) = 0 \<and>
   snd (streamToUint8Array (Some [ReadFails ''reset''])) = Inl (Error ''STREAM_READ_ERROR: reset'') \<and>
   ttsErrorCount (state_of (synthesis_resume request_A
     (SendResolves (AudioStream [ReadFails ''reset'']))
     Visible PlayResolves PlayResolves 7 ready_state)) = 0 \<and>
   invalid_text (Text [0x20]) \<and>
   ttsErrorCount (speakText (Text [0x20]) 7 ready_state) = 0"
proof -
  have k: "classify (aws_error ''ThrottlingException'' ''ThrottlingException'') = RATE_LIMIT"
    "classify (aws_error ''ValidationException'' ''ValidationException'') = PARAMETER"
    by (simp_all add: classify_def aws_error_def)
  have st: "snd (streamToUint8Array (Some [ReadFails ''reset''])) = Inl (Error ''STREAM_READ_ERROR: reset'')"
    by (simp add: streamToUint8Array_def maxReads_def)
  have iv: "invalid_text (Text [0x20])"
    by (simp add: invalid_text_def trim_def isWhiteSpace_def)
  have z: "ttsErrorCount ready_state = 0"
    by (simp add: ready_state_def initializePollyClient_def initial_state_def trim_def
        isWhiteSpace_def)
  show ?thesis
    using failure_counting[of "aws_error ''ThrottlingException'' ''ThrottlingException''" request_A
        Visible PlayResolves PlayResolves 7 ready_state "[ReadFails ''reset'']"
        "Error ''STREAM_READ_ERROR: reset''" "Text [0x20]"]
      failure_counting[of "aws_error ''ValidationException'' ''ValidationException''" request_A
        Visible PlayResolves PlayResolves 7 ready_state "[ReadFails ''reset'']"
        "Error ''STREAM_READ_ERROR: reset''" "Text [0x20]"]
    by (simp add: k st iv z) (simp add: classify_def aws_error_def Error_def)
qed

section \<open>Settings\<close>

text \<open>
  Claim C6, as amended. \<open>configureAudioSettings\<close> clamps a written numeric value of
  \<open>maxConcurrentAudio\<close> into [1, 10], of \<open>defaultVolume\<close> into [0, 1] and of
  \<open>fadeOutDuration\<close> into [0, 5000]; \<open>queueProcessingDelay\<close> is stored as it is written
  (or kept), without any clamp.
\<close>

theorem configureAudioSettings_clamps:
  "(new_maxConcurrentAudio p = Some (Num x) \<longrightarrow>
      maxConcurrentAudio (audioSettings (configureAudioSettings p s)) = Num (max 1 (min 10 x)) \<and>
      in_range 1 10 (maxConcurrentAudio (audioSettings (configureAudioSettings p s)))) \<and>
   (new_defaultVolume p = Some (Num y) \<longrightarrow>
      defaultVolume (audioSettings (configureAudioSettings p s)) = Num (max 0 (min 1 y)) \<and>
      in_range 0 1 (defaultVolume (audioSettings (configureAudioSettings p s)))) \<and>
   (new_fadeOutDuration p = Some (Num z) \<longrightarrow>
      fadeOutDuration (audioSettings (configureAudioSettings p s)) = Num (max 0 (min 5000 z)) \<and>
      in_range 0 5000 (fadeOutDuration (audioSettings (configureAudioSettings p s)))) \<and>
   queueProcessingDelay (audioSettings (configureAudioSettings p s)) =
      spread (queueProcessingDelay (audioSettings s)) (new_queueProcessingDelay p)"
  by (simp add: configureAudioSettings_def Let_def spread_def in_range_def)

theorem configureAudioSettings_clamps_witness:
  "maxConcurrentAudio (audioSettings (configureAudioSettings
     \<lparr>new_maxConcurrentAudio = Some (Num 25), new_defaultVolume = Some (Num (-3)),
      new_fadeOutDuration = Some (Num 300), new_queueProcessingDelay = Some (Num 50)\<rparr>
     initial_state)) = Num 10 \<and>
   defaultVolume (audioSettings (configureAudioSettings
     \<lparr>new_maxConcurrentAudio = Some (Num 25), new_defaultVolume = Some (Num (-3)),
      new_fadeOutDuration = Some (Num 300), new_queueProcessingDelay = Some (Num 50)\<rparr>
     initial_state)) = Num 0 \<and>
   fadeOutDuration (audioSettings (configureAudioSettings
     \<lparr>new_maxConcurrentAudio = Some (Num 25), new_defaultVolume = Some (Num (-3)),
      new_fadeOutDuration = Some (Num 300), new_queueProcessingDelay = Some (Num 50)\<rparr>
     initial_state)) = Num 300 \<and>
   queueProcessingDelay (audioSettings (configureAudioSettings
     \<lparr>new_maxConcurrentAudio = Some (Num 25), new_defaultVolume = Some (Num (-3)),
      new_fadeOutDuration = Some (Num 300), new_queueProcessingDelay = Some (Num 50)\<rparr>
     initial_state)) = Num 50"
  using configureAudioSettings_clamps[of
     "\<lparr>new_maxConcurrentAudio = Some (Num 25), new_defaultVolume = Some (Num (-3)),
      new_fadeOutDuration = Some (Num 300), new_queueProcessingDelay = Some (Num 50)\<rparr>"
     25 initial_state "-3" 300]
  by (simp add: spread_def)

theorem configureAudioSettings_counterexample:
  "queueProcessingDelay (audioSettings (configureAudioSettings
     (no_patch\<lparr>new_queueProcessingDelay := Some (Num (-5))\<rparr>) initial_state)) = Num (-5) \<and>
   maxConcurrentAudio (audioSettings (configureAudioSettings
     (no_patch\<lparr>new_maxConcurrentAudio := Some NaN\<rparr>) initial_state)) = NaN"
  by (simp add: configureAudioSettings_def Let_def spread_def no_patch_def initial_state_def say_def)

section \<open>Stream assembly\<close>

lemma read_loop_bound:
  assumes "maxReads - n \<le> length reads" and "\<forall>x \<in> set (take (maxReads - n) reads). is_chunk x"
    and "n \<le> maxReads"
  shows "read_loop n reads chunks =
           ([], Inr (maxReads, chunks @ filter (\<lambda>v. v \<noteq> []) (map chunk_bytes (take (maxReads - n) reads))))"
  using assms
proof (induction reads arbitrary: n chunks)
  case Nil
  then show ?case by simp
next
  case (Cons x reads)
  show ?case
  proof (cases "n < maxReads")
    case False
    with Cons.prems show ?thesis by (cases x) simp_all
  next
    case True
    then obtain k where k: "maxReads - n = Suc k" and k': "maxReads - Suc n = k"
      by (metis Suc_diff_Suc diff_Suc_eq_diff_pred diff_Suc_1)
    from Cons.prems k obtain v where x: "x = Chunk v" by (cases x) auto
    have "read_loop (Suc n) reads (if v \<noteq> [] then chunks @ [v] else chunks) =
        ([], Inr (maxReads, (if v \<noteq> [] then chunks @ [v] else chunks) @
           filter (\<lambda>v. v \<noteq> []) (map chunk_bytes (take (maxReads - Suc n) reads))))"
      using Cons.prems True k k' by (intro Cons.IH) auto
    with True x k k' show ?thesis by simp
  qed
qed

lemma concat_nonempty: "concat (filter (\<lambda>v. v \<noteq> []) xs) = concat xs"
  by (induction xs) simp_all

lemma filter_nonempty_Nil: "filter (\<lambda>v. v \<noteq> []) xs = [] \<longleftrightarrow> concat xs = []"
  by (induction xs) auto

lemma read_loop_empty:
  "\<forall>x \<in> set reads. x = Chunk [] \<Longrightarrow> \<exists>l k. read_loop n reads chunks = (l, Inr (k, chunks))"
  by (induction reads arbitrary: n) auto

lemma stream_empty:
  assumes "\<forall>x \<in> set reads. x = Chunk []"
  shows "\<exists>l. streamToUint8Array (Some reads) =
           (l, Inl (Error ''STREAM_ERROR: No data chunks received from stream''))"
proof -
  obtain l k where "read_loop 0 reads [] = (l, Inr (k, []))"
    using read_loop_empty[OF assms] by blast
  then show ?thesis by (simp add: streamToUint8Array_def Let_def)
qed

lemma concat_replicate_single: "concat (replicate n [x]) = replicate n x"
  by (induction n) simp_all

lemma synthesis_resume_returns: "returns (synthesis_resume r res vis p1 p2 now s)"
  by (simp add: synthesis_resume_def split: outcome.splits)

text \<open>
  Claim C8, as amended. When the bound of 1000 reads is reached and the stream is still
  not closed (the first 1000 reads all gave chunks), the assembly logs a warning and goes
  on with what it has read: the buffer it returns is the concatenation of those chunks,
  and it fails with a stream error only when they hold no byte at all. Whatever the
  stream, the rest of \<open>synthesizeAndPlayAudio\<close> returns normally.
\<close>

theorem stream_bound:
  assumes "maxReads \<le> length reads" and "\<forall>x \<in> set (take maxReads reads). is_chunk x"
  shows "streamToUint8Array (Some reads) =
     (if concat (map chunk_bytes (take maxReads reads)) = [] then
        ([(Warn, ''TTS_STREAM_WARNING: Maximum read attempts reached, stream may be incomplete'')],
         Inl (Error ''STREAM_ERROR: No data chunks received from stream''))
      else
        ([(Warn, ''TTS_STREAM_WARNING: Maximum read attempts reached, stream may be incomplete''),
          (Log, ''TTS_STREAM_SUCCESS: Processing chunks'')],
         Inr (concat (map chunk_bytes (take maxReads reads))))) \<and>
     returns (synthesis_resume r (SendResolves (AudioStream reads)) vis p1 p2 now s)"
proof -
  have "read_loop 0 reads [] =
      ([], Inr (maxReads, filter (\<lambda>v. v \<noteq> []) (map chunk_bytes (take maxReads reads))))"
    using read_loop_bound[of 0 reads "[]"] assms by simp
  then show ?thesis
    by (simp add: streamToUint8Array_def Let_def concat_nonempty filter_nonempty_Nil
        synthesis_resume_returns)
qed

theorem stream_bound_witness:
  "maxReads \<le> length (replicate 1200 (Chunk [7])) \<and>
   streamToUint8Array (Some (replicate 1200 (Chunk [7]))) =
     ([(Warn, ''TTS_STREAM_WARNING: Maximum read attempts reached, stream may be incomplete''),
       (Log, ''TTS_STREAM_SUCCESS: Processing chunks'')],
      Inr (replicate 1000 7)) \<and>
   maxReads \<le> length (replicate 1000 (Chunk [])) \<and>
   streamToUint8Array (Some (replicate 1000 (Chunk []))) =
     ([(Warn, ''TTS_STREAM_WARNING: Maximum read attempts reached, stream may be incomplete'')],
      Inl (Error ''STREAM_ERROR: No data chunks received from stream''))"
  using stream_bound[of "replicate 1200 (Chunk [7])" request_A Visible PlayResolves PlayResolves 0
      ready_state]
    stream_bound[of "replicate 1000 (Chunk [])" request_A Visible PlayResolves PlayResolves 0
      ready_state]
  by (simp add: maxReads_def concat_replicate_single)

theorem stream_bound_counterexample:
  "snd (streamToUint8Array (Some (replicate 1001 (Chunk [1])))) = Inr (replicate 1000 1)"
proof -
  have "read_loop 0 (replicate 1001 (Chunk [1])) [] =
      ([], Inr (maxReads, [] @ filter (\<lambda>v. v \<noteq> [])
         (map chunk_bytes (take (maxReads - 0) (replicate 1001 (Chunk [1]))))))"
    by (rule read_loop_bound) (simp_all add: maxReads_def)
  then show ?thesis
    by (simp add: streamToUint8Array_def Let_def maxReads_def concat_replicate_single)
qed

text \<open>
  Claim C9. When every chunk of the response stream is empty, the assembly fails, the
  rest of \<open>synthesizeAndPlayAudio\<close> returns normally after logging the stream error, no
  audio element is created or added to the active set and no listener is left behind,
  and the promise of the call is resolved, whether the call was direct or queued.
\<close>

theorem empty_stream_resolves:
  assumes "\<forall>x \<in> set reads. x = Chunk []"
  shows "returns (synthesis_resume r (SendResolves (AudioStream reads)) vis p1 p2 now s) \<and>
     activeAudioElements (state_of (synthesis_resume r (SendResolves (AudioStream reads)) vis p1 p2 now s))
       = activeAudioElements s \<and>
     nextElement (state_of (synthesis_resume r (SendResolves (AudioStream reads)) vis p1 p2 now s))
       = nextElement s \<and>
     interactionListeners (state_of (synthesis_resume r (SendResolves (AudioStream reads)) vis p1 p2 now s))
       = interactionListeners s \<and>
     last (console (state_of (synthesis_resume r (SendResolves (AudioStream reads)) vis p1 p2 now s)))
       = (Err, ''TTS_STREAM_ERROR: Failed to process audio stream'') \<and>
     promises (after_synthesis org call
         (synthesis_resume r (SendResolves (AudioStream reads)) vis p1 p2 now s))
       = promises s @ [(call, Resolved)] \<and>
     activeAudioElements (after_synthesis org call
         (synthesis_resume r (SendResolves (AudioStream reads)) vis p1 p2 now s))
       = activeAudioElements s \<and>
     nextElement (after_synthesis org call
         (synthesis_resume r (SendResolves (AudioStream reads)) vis p1 p2 now s))
       = nextElement s"
proof -
  obtain l where l: "streamToUint8Array (Some reads) =
           (l, Inl (Error ''STREAM_ERROR: No data chunks received from stream''))"
    using stream_empty[OF assms] by blast
  have r: "synthesis_resume r (SendResolves (AudioStream reads)) vis p1 p2 now s =
     Returns (say Err ''TTS_STREAM_ERROR: Failed to process audio stream''
                 (s\<lparr>console := console s @ l\<rparr>))"
    by (simp add: synthesis_resume_def synthesis_try_def l)
  show ?thesis
    unfolding r
    by (cases org)
       (simp_all add: after_synthesis_def settle_promise_def drain_exit_def scheduleQueue_def
         Let_def)
qed

theorem empty_stream_resolves_witness:
  "returns (synthesis_resume request_A (SendResolves (AudioStream [Chunk [], Chunk []]))
     Visible PlayResolves PlayResolves 9 ready_state) \<and>
   activeAudioElements (after_synthesis Direct 0
     (synthesis_resume request_A (SendResolves (AudioStream [Chunk [], Chunk []]))
       Visible PlayResolves PlayResolves 9 ready_state)) = [] \<and>
   promises (after_synthesis Direct 0
     (synthesis_resume request_A (SendResolves (AudioStream [Chunk [], Chunk []]))
       Visible PlayResolves PlayResolves 9 ready_state)) = [(0, Resolved)]"
  using empty_stream_resolves[of "[Chunk [], Chunk []]" request_A Visible PlayResolves
      PlayResolves 9 ready_state Direct 0]
  by (simp add: ready_state_def initializePollyClient_def initial_state_def trim_def
      isWhiteSpace_def)

section \<open>Truncation\<close>

lemma dropWhile_hd: "ys \<noteq> [] \<Longrightarrow> \<not> P (hd ys) \<Longrightarrow> dropWhile P ys = ys"
  by (cases ys) simp_all

lemma trim_id:
  assumes "xs \<noteq> []" and "\<not> isWhiteSpace (hd xs)" and "\<not> isWhiteSpace (last xs)"
  shows "trim xs = xs"
proof -
  have a: "dropWhile isWhiteSpace xs = xs"
    using assms by (simp add: dropWhile_hd)
  have b: "dropWhile isWhiteSpace (rev xs) = rev xs"
    using assms by (simp add: dropWhile_hd hd_rev)
  show ?thesis by (simp add: trim_def a b)
qed

lemma trim_padded:
  assumes "isWhiteSpace w" and "\<not> isWhiteSpace a"
  shows "trim (w # replicate n a) = replicate n a"
  using assms by (simp add: trim_def)

lemma trim_take:
  assumes "n < length text" and "0 < n" and "\<not> isWhiteSpace (text ! 0)"
    and "\<not> isWhiteSpace (text ! (n - 1))"
  shows "trim (take n text) = take n text"
proof (rule trim_id)
  show "take n text \<noteq> []" using assms by auto
  show "\<not> isWhiteSpace (hd (take n text))"
    using assms by (cases "text") (simp_all add: hd_conv_nth)
  have "last (take n text) = take n text ! (length (take n text) - 1)"
    using assms by (intro last_conv_nth) auto
  also have "\<dots> = text ! (n - 1)"
    using assms by simp
  finally show "\<not> isWhiteSpace (last (take n text))"
    using assms by simp
qed

lemma manage_idle:
  assumes "activeAudioElements s = []"
  shows "manageAudioConcurrency s = s"
  using assms by (simp add: manageAudioConcurrency_def)

text \<open>
  Claim C5, as amended. A text of more than 3000 units is not rejected: the request that
  is sent carries the first 3000 units with the white space at both ends removed, which
  is exactly the first 3000 units when these neither begin nor end with white space, and
  the truncation is logged. This holds for \<open>synthesizeAndPlayAudio\<close> on the direct and on
  the queued path, and so for a call of \<open>speakText\<close> that finds the client ready, the
  breaker closed and no audio active.
\<close>

theorem long_text_truncated:
  assumes "maxTextLength < length text" and "pollyClient s"
  shows "pendingRequests (synthesizeAndPlayAudio text start org call now s) =
           pendingRequests s @ [\<lparr>req_call = call, req_text = trim (take maxTextLength text),
                                 req_start = start, req_origin = org\<rparr>] \<and>
         (Warn, ''TTS_INPUT_ERROR: Text too long. Truncating to 3000 characters.'')
           \<in> set (console (synthesizeAndPlayAudio text start org call now s)) \<and>
         (\<not> isWhiteSpace (text ! 0) \<and> \<not> isWhiteSpace (text ! (maxTextLength - 1)) \<longrightarrow>
            trim (take maxTextLength text) = take maxTextLength text) \<and>
         (\<not> invalid_text (Text text) \<and> ttsErrorCount s < MAX_ERROR_COUNT \<and>
          activeAudioElements s = [] \<and>
          \<not> js_ge (Num 0) (maxConcurrentAudio (audioSettings s)) \<longrightarrow>
            pendingRequests (speakText (Text text) now s) =
              pendingRequests s @ [\<lparr>req_call = nextCall s, req_text = trim (take maxTextLength text),
                                    req_start = now, req_origin = Direct\<rparr>])"
proof -
  have a: "pendingRequests (synthesizeAndPlayAudio text start org call now s) =
           pendingRequests s @ [\<lparr>req_call = call, req_text = trim (take maxTextLength text),
                                 req_start = start, req_origin = org\<rparr>]"
    using assms by (simp add: synthesizeAndPlayAudio_def truncateText_def)
  have b: "(Warn, ''TTS_INPUT_ERROR: Text too long. Truncating to 3000 characters.'')
           \<in> set (console (synthesizeAndPlayAudio text start org call now s))"
    using assms by (simp add: synthesizeAndPlayAudio_def truncateText_def)
  have c: "\<not> isWhiteSpace (text ! 0) \<and> \<not> isWhiteSpace (text ! (maxTextLength - 1)) \<Longrightarrow>
            trim (take maxTextLength text) = take maxTextLength text"
    using assms(1) by (intro trim_take) (simp_all add: maxTextLength_def)
  have d: "\<not> invalid_text (Text text) \<and> ttsErrorCount s < MAX_ERROR_COUNT \<and>
          activeAudioElements s = [] \<and>
          \<not> js_ge (Num 0) (maxConcurrentAudio (audioSettings s)) \<Longrightarrow>
            pendingRequests (speakText (Text text) now s) =
              pendingRequests s @ [\<lparr>req_call = nextCall s, req_text = trim (take maxTextLength text),
                                    req_start = now, req_origin = Direct\<rparr>]"
    using assms
    by (simp add: speakText_def Let_def isTtsTemporarilyDisabled_def manage_idle active_size_def
        synthesizeAndPlayAudio_def truncateText_def)
  from a b c d show ?thesis by blast
qed

theorem long_text_truncated_witness:
  "maxTextLength < length (replicate 4000 (0x41 :: 16 word)) \<and>
   map req_text (pendingRequests (speakText (Text (replicate 4000 0x41)) 3 ready_state))
     = [replicate 3000 0x41]"
proof -
  have r: "pollyClient ready_state" "ttsErrorCount ready_state = 0"
    "activeAudioElements ready_state = []" "pendingRequests ready_state = []"
    "maxConcurrentAudio (audioSettings ready_state) = Num 3"
    by (simp_all add: ready_state_def initializePollyClient_def initial_state_def trim_def
        isWhiteSpace_def)
  have w: "\<not> isWhiteSpace 0x41"
    by (simp add: isWhiteSpace_def)
  have v: "\<not> invalid_text (Text (replicate 4000 0x41))"
    using w by (simp add: invalid_text_def trim_def)
  show ?thesis
    using long_text_truncated[of "replicate 4000 0x41" ready_state 3 Direct 0 3]
    by (simp add: r w v maxTextLength_def MAX_ERROR_COUNT_def)
qed

theorem truncation_counterexample:
  "map req_text (pendingRequests (speakText (Text (0x20 # replicate 3000 0x41)) 0 ready_state))
     = [replicate 2999 0x41]"
proof -
  have w: "isWhiteSpace 0x20" "\<not> isWhiteSpace 0x41"
    by (simp_all add: isWhiteSpace_def)
  have r: "pollyClient ready_state" "ttsErrorCount ready_state = 0"
    "activeAudioElements ready_state = []" "pendingRequests ready_state = []"
    "maxConcurrentAudio (audioSettings ready_state) = Num 3"
    by (simp_all add: ready_state_def initializePollyClient_def initial_state_def trim_def
        isWhiteSpace_def)
  show ?thesis
    by (simp add: speakText_def Let_def isTtsTemporarilyDisabled_def manage_idle active_size_def
        synthesizeAndPlayAudio_def truncateText_def invalid_text_def trim_padded w r
        MAX_ERROR_COUNT_def maxTextLength_def)
qed

section \<open>Admission and queue order\<close>

text \<open>The definitions that an evaluation of a concrete run unfolds.\<close>

lemmas model_defs = ready_state_def initializePollyClient_def initial_state_def trim_def
      isWhiteSpace_def configureAudioSettings_def spread_def no_patch_def limit_patch_def
      speakText_def invalid_text_def isTtsTemporarilyDisabled_def MAX_ERROR_COUNT_def
      manageAudioConcurrency_def active_size_def synthesizeAndPlayAudio_def truncateText_def
      maxTextLength_def say_def Let_def good_response_def after_synthesis_def synthesis_resume_def
      synthesis_try_def streamToUint8Array_def maxReads_def play_new_element_def
      handleAutoplayOptimization_def set_paused_def set_volume_def record_success_def
      settle_promise_def new_element_def play_catch_def delete_active_def revoke_def
      scheduleQueue_def handleAutoplayBlocked_def playOnInteraction_def add_active_def
      all_playing_def playing_def revocations_def limit_def not_allowed_def Error_def
      finished_def fadeOutAudio_def

lemma playing_two_facts:
  shows "pollyClient playing_two" and "ttsErrorCount playing_two = 0"
    and "maxConcurrentAudio (audioSettings playing_two) = Num 2"
    and "activeAudioElements playing_two = [0, 1]"
    and "\<not> finished playing_two 0" and "\<not> finished playing_two 1"
    and "audioQueue playing_two = []" and "\<not> isProcessingQueue playing_two"
    and "pendingRequests playing_two = []" and "nextCall playing_two = 2"
    and "\<not> finished playing_two (Suc 0)"
  by (simp_all add: playing_two_def model_defs)

lemma speakText_queued:
  assumes "pollyClient s" and "ttsErrorCount s < MAX_ERROR_COUNT"
    and "maxConcurrentAudio (audioSettings s) = Num 2"
    and "activeAudioElements s = [a, b]" and "a \<noteq> b"
    and "\<not> finished s a" and "\<not> finished s b"
    and "\<not> invalid_text arg"
  shows "speakText arg now s =
     (say Log ''TTS_QUEUE: Audio at capacity, queuing request'' s)
       \<lparr>nextCall := nextCall s + 1,
        performanceMetrics := (performanceMetrics s)
          \<lparr>totalRequests := totalRequests (performanceMetrics s) + 1,
           queuedRequests := queuedRequests (performanceMetrics s) + 1\<rparr>,
        audioQueue := audioQueue s @ [(text_of arg, nextCall s)],
        queueTimers := queueTimers s + 1,
        fadeIntervals := fadeIntervals s @
          [\<lparr>fade_el = a, fade_original = el_volume (elements s a), fade_step = 0\<rparr>]\<rparr>"
  using assms
  by (simp add: speakText_def Let_def isTtsTemporarilyDisabled_def manageAudioConcurrency_def
      finished_def active_size_def fadeOutAudio_def say_def)


text \<open>
  Claim C4, as amended. With a limit of 2 and two elements playing in the active set, a
  call for C is put into the queue and a later call for D, made while the set is still
  full, is put behind it. When the first element has ended and the queue is drained, the
  request that is sent is the one for C, and D stays queued: entries leave the queue in
  the order they entered. A call made after the element has ended and before the drain
  runs finds room and is sent at once, while C and D are still queued.
\<close>

theorem queue_fifo:
  assumes "pollyClient s" and "ttsErrorCount s < MAX_ERROR_COUNT"
    and "maxConcurrentAudio (audioSettings s) = Num 2"
    and "activeAudioElements s = [a, b]" and "a \<noteq> b"
    and "\<not> finished s a" and "\<not> finished s b"
    and "audioQueue s = []" and "\<not> isProcessingQueue s"
    and "\<not> invalid_text (Text c)" and "\<not> invalid_text (Text d)" and "\<not> invalid_text (Text e)"
    and "s1 = speakText (Text c) t1 s" and "s2 = speakText (Text d) t2 s1"
    and "s3 = audio_ended a s2" and "s4 = processAudioQueue t3 s3"
  shows "audioQueue s1 = [(c, nextCall s)] \<and> pendingRequests s1 = pendingRequests s \<and>
         audioQueue s2 = [(c, nextCall s), (d, nextCall s + 1)] \<and>
         pendingRequests s2 = pendingRequests s \<and>
         activeAudioElements s3 = [b] \<and>
         pendingRequests s4 = pendingRequests s @
           [\<lparr>req_call = nextCall s, req_text = sent_text c, req_start = t3, req_origin = Queued\<rparr>] \<and>
         audioQueue s4 = [(d, nextCall s + 1)] \<and>
         pendingRequests (speakText (Text e) t3 s3) = pendingRequests s @
           [\<lparr>req_call = nextCall s + 2, req_text = sent_text e, req_start = t3, req_origin = Direct\<rparr>] \<and>
         audioQueue (speakText (Text e) t3 s3) = [(c, nextCall s), (d, nextCall s + 1)]"
proof -
  have q1: "s1 = (say Log ''TTS_QUEUE: Audio at capacity, queuing request'' s)
       \<lparr>nextCall := nextCall s + 1,
        performanceMetrics := (performanceMetrics s)
          \<lparr>totalRequests := totalRequests (performanceMetrics s) + 1,
           queuedRequests := queuedRequests (performanceMetrics s) + 1\<rparr>,
        audioQueue := audioQueue s @ [(text_of (Text c), nextCall s)],
        queueTimers := queueTimers s + 1,
        fadeIntervals := fadeIntervals s @
          [\<lparr>fade_el = a, fade_original = el_volume (elements s a), fade_step = 0\<rparr>]\<rparr>"
    unfolding assms(13) using assms(1-7,10) by (rule speakText_queued)
  have f1: "pollyClient s1" "ttsErrorCount s1 < MAX_ERROR_COUNT"
    "maxConcurrentAudio (audioSettings s1) = Num 2" "activeAudioElements s1 = [a, b]"
    "\<not> finished s1 a" "\<not> finished s1 b" "audioQueue s1 = [(c, nextCall s)]"
    "pendingRequests s1 = pendingRequests s" "nextCall s1 = nextCall s + 1"
    "\<not> isProcessingQueue s1"
    using assms(1-9) by (simp_all add: q1 finished_def)
  have q2: "s2 = (say Log ''TTS_QUEUE: Audio at capacity, queuing request'' s1)
       \<lparr>nextCall := nextCall s1 + 1,
        performanceMetrics := (performanceMetrics s1)
          \<lparr>totalRequests := totalRequests (performanceMetrics s1) + 1,
           queuedRequests := queuedRequests (performanceMetrics s1) + 1\<rparr>,
        audioQueue := audioQueue s1 @ [(text_of (Text d), nextCall s1)],
        queueTimers := queueTimers s1 + 1,
        fadeIntervals := fadeIntervals s1 @
          [\<lparr>fade_el = a, fade_original = el_volume (elements s1 a), fade_step = 0\<rparr>]\<rparr>"
    unfolding assms(14) using f1(1-4) assms(5) f1(5,6) assms(11) by (rule speakText_queued)
  have f2: "pollyClient s2" "ttsErrorCount s2 < MAX_ERROR_COUNT"
    "maxConcurrentAudio (audioSettings s2) = Num 2" "activeAudioElements s2 = [a, b]"
    "\<not> finished s2 b" "audioQueue s2 = [(c, nextCall s), (d, nextCall s + 1)]"
    "pendingRequests s2 = pendingRequests s" "nextCall s2 = nextCall s + 2"
    "\<not> isProcessingQueue s2"
    using f1 by (simp_all add: q2 finished_def)
  have f3: "pollyClient s3" "ttsErrorCount s3 < MAX_ERROR_COUNT"
    "maxConcurrentAudio (audioSettings s3) = Num 2" "activeAudioElements s3 = [b]"
    "\<not> finished s3 b" "audioQueue s3 = [(c, nextCall s), (d, nextCall s + 1)]"
    "pendingRequests s3 = pendingRequests s" "nextCall s3 = nextCall s + 2"
    "\<not> isProcessingQueue s3"
    using f2 assms(5)
    by (simp_all add: assms(15) audio_ended_def on_ended_def on_pause_def scheduleQueue_def
        revoke_def delete_active_def finished_def)
  have p4: "pendingRequests s4 = pendingRequests s @
           [\<lparr>req_call = nextCall s, req_text = sent_text c, req_start = t3, req_origin = Queued\<rparr>]"
    and a4: "audioQueue s4 = [(d, nextCall s + 1)]"
    using f3
    by (simp_all add: assms(16) processAudioQueue_def drain_loop_def active_size_def
        synthesizeAndPlayAudio_def truncateText_def sent_text_def)
  have p5: "pendingRequests (speakText (Text e) t3 s3) = pendingRequests s @
           [\<lparr>req_call = nextCall s + 2, req_text = sent_text e, req_start = t3, req_origin = Direct\<rparr>]"
    and a5: "audioQueue (speakText (Text e) t3 s3) = [(c, nextCall s), (d, nextCall s + 1)]"
    using f3 assms(12)
    by (simp_all add: speakText_def Let_def isTtsTemporarilyDisabled_def
        manageAudioConcurrency_def active_size_def synthesizeAndPlayAudio_def truncateText_def
        sent_text_def finished_def)
  from f1(7,8) f2(6,7) f3(4) p4 a4 p5 a5 show ?thesis by simp
qed

theorem queue_fifo_witness:
  "activeAudioElements playing_two = [0, 1] \<and>
   audioQueue (speakText (Text [0x43]) 900 playing_two) = [([0x43], 2)] \<and>
   audioQueue (speakText (Text [0x44]) 950 (speakText (Text [0x43]) 900 playing_two))
     = [([0x43], 2), ([0x44], 3)] \<and>
   map req_text (pendingRequests (processAudioQueue 1500 (audio_ended 0
     (speakText (Text [0x44]) 950 (speakText (Text [0x43]) 900 playing_two))))) = [[0x43]] \<and>
   audioQueue (processAudioQueue 1500 (audio_ended 0
     (speakText (Text [0x44]) 950 (speakText (Text [0x43]) 900 playing_two)))) = [([0x44], 3)]"
proof -
  have v: "\<not> invalid_text (Text [0x43])" "\<not> invalid_text (Text [0x44])"
    "\<not> invalid_text (Text [0x45])"
    by (simp_all add: invalid_text_def trim_def isWhiteSpace_def)
  have t: "sent_text [0x43] = [0x43]"
    by (simp add: sent_text_def trim_def isWhiteSpace_def maxTextLength_def)
  have n: "(0::nat) \<noteq> 1" by simp
  have m: "ttsErrorCount playing_two < MAX_ERROR_COUNT"
    by (simp add: playing_two_facts MAX_ERROR_COUNT_def)
  from queue_fifo[OF playing_two_facts(1) m playing_two_facts(3,4) n
      playing_two_facts(5,6,7,8) v refl refl refl refl,
      where ?t1.0 = 900 and ?t2.0 = 950 and ?t3.0 = 1500]
  show ?thesis
    by (simp add: playing_two_facts t)
qed

lemma ended_frees:
  assumes "activeAudioElements s = [a, b]" and "a \<noteq> b" and "\<not> finished s b"
  shows "activeAudioElements (audio_ended a s) = [b]"
    and "\<not> finished (audio_ended a s) b"
    and "pollyClient (audio_ended a s) = pollyClient s"
    and "ttsErrorCount (audio_ended a s) = ttsErrorCount s"
    and "lastErrorTime (audio_ended a s) = lastErrorTime s"
    and "audioSettings (audio_ended a s) = audioSettings s"
    and "audioQueue (audio_ended a s) = audioQueue s"
    and "pendingRequests (audio_ended a s) = pendingRequests s"
    and "nextCall (audio_ended a s) = nextCall s"
    and "isProcessingQueue (audio_ended a s) = isProcessingQueue s"
  using assms
  by (simp_all add: audio_ended_def on_ended_def on_pause_def scheduleQueue_def
      revoke_def delete_active_def finished_def)

lemma speakText_direct:
  assumes "pollyClient s" and "ttsErrorCount s < MAX_ERROR_COUNT"
    and "filter (finished s) (activeAudioElements s) = []"
    and "\<not> js_ge (active_size s) (maxConcurrentAudio (audioSettings s))"
    and "\<not> invalid_text arg"
  shows "pendingRequests (speakText arg now s) = pendingRequests s @
           [\<lparr>req_call = nextCall s, req_text = sent_text (text_of arg), req_start = now,
             req_origin = Direct\<rparr>]"
    and "audioQueue (speakText arg now s) = audioQueue s"
proof -
  define s0 where "s0 = s\<lparr>nextCall := nextCall s + 1,
                 performanceMetrics := (performanceMetrics s)
                   \<lparr>totalRequests := totalRequests (performanceMetrics s) + 1\<rparr>\<rparr>"
  have f: "finished s0 = finished s"
    by (rule ext) (simp add: finished_def s0_def)
  have m: "manageAudioConcurrency s0 = s0"
    using assms(3,4)
    by (simp add: manageAudioConcurrency_def f Let_def)
       (simp add: s0_def active_size_def)
  have d: "isTtsTemporarilyDisabled now s0 = (False, s0)"
    using assms(2) by (simp add: isTtsTemporarilyDisabled_def s0_def)
  have e: "speakText arg now s = synthesizeAndPlayAudio (text_of arg) now Direct (nextCall s) now s0"
    using assms(1,4,5)
    unfolding speakText_def Let_def s0_def[symmetric]
    by (simp add: d m) (simp add: s0_def active_size_def)
  show "pendingRequests (speakText arg now s) = pendingRequests s @
           [\<lparr>req_call = nextCall s, req_text = sent_text (text_of arg), req_start = now,
             req_origin = Direct\<rparr>]"
    and "audioQueue (speakText arg now s) = audioQueue s"
    using assms(1)
    by (simp_all add: e synthesizeAndPlayAudio_def truncateText_def sent_text_def s0_def)
qed


theorem queue_fifo_counterexample:
  "map_option (map req_text \<circ> pendingRequests) (run
      [Configure (limit_patch 2), Speak (Text [0x41]) 0, Speak (Text [0x42]) 0,
       Speak (Text [0x43]) 0] ready_state) = Some [[0x41], [0x42], [0x43]] \<and>
   map_option audioQueue (run
      [Configure (limit_patch 2), Speak (Text [0x41]) 0, Speak (Text [0x42]) 0,
       Speak (Text [0x43]) 0] ready_state) = Some [] \<and>
   map req_text (pendingRequests (speakText (Text [0x44]) 1500 (audio_ended 0
     (speakText (Text [0x43]) 900 playing_two)))) = [[0x44]] \<and>
   audioQueue (speakText (Text [0x44]) 1500 (audio_ended 0
     (speakText (Text [0x43]) 900 playing_two))) = [([0x43], 2)]"
proof -
  have b: "map_option (map req_text \<circ> pendingRequests) (run
      [Configure (limit_patch 2), Speak (Text [0x41]) 0, Speak (Text [0x42]) 0,
       Speak (Text [0x43]) 0] ready_state) = Some [[0x41], [0x42], [0x43]]"
    "map_option audioQueue (run
      [Configure (limit_patch 2), Speak (Text [0x41]) 0, Speak (Text [0x42]) 0,
       Speak (Text [0x43]) 0] ready_state) = Some []"
    by (simp_all add: model_defs)
  have v: "\<not> invalid_text (Text [0x43])" "\<not> invalid_text (Text [0x44])"
    by (simp_all add: invalid_text_def trim_def isWhiteSpace_def)
  have t: "sent_text [0x44] = [0x44]"
    by (simp add: sent_text_def trim_def isWhiteSpace_def maxTextLength_def)
  define s1 where "s1 = speakText (Text [0x43]) 900 playing_two"
  have q: "s1 =
     (say Log ''TTS_QUEUE: Audio at capacity, queuing request'' playing_two)
       \<lparr>nextCall := nextCall playing_two + 1,
        performanceMetrics := (performanceMetrics playing_two)
          \<lparr>totalRequests := totalRequests (performanceMetrics playing_two) + 1,
           queuedRequests := queuedRequests (performanceMetrics playing_two) + 1\<rparr>,
        audioQueue := audioQueue playing_two @ [(text_of (Text [0x43]), nextCall playing_two)],
        queueTimers := queueTimers playing_two + 1,
        fadeIntervals := fadeIntervals playing_two @
          [\<lparr>fade_el = 0, fade_original = el_volume (elements playing_two 0), fade_step = 0\<rparr>]\<rparr>"
    unfolding s1_def
    by (rule speakText_queued[where b = 1])
       (simp_all add: playing_two_facts MAX_ERROR_COUNT_def v)
  have f1: "activeAudioElements s1 = [0, 1]" "\<not> finished s1 1" "pollyClient s1"
    "ttsErrorCount s1 < MAX_ERROR_COUNT" "maxConcurrentAudio (audioSettings s1) = Num 2"
    "audioQueue s1 = [([0x43], 2)]" "pendingRequests s1 = []"
    using playing_two_facts
    by (simp_all add: q finished_def MAX_ERROR_COUNT_def)
  define s3 where "s3 = audio_ended 0 s1"
  have n: "(0::nat) \<noteq> 1" by simp
  have f3: "activeAudioElements s3 = [1]" "\<not> finished s3 1" "pollyClient s3"
    "ttsErrorCount s3 < MAX_ERROR_COUNT" "maxConcurrentAudio (audioSettings s3) = Num 2"
    "audioQueue s3 = [([0x43], 2)]" "pendingRequests s3 = []"
    unfolding s3_def
    using ended_frees[OF f1(1) n f1(2)] f1 by simp_all
  have g: "filter (finished s3) (activeAudioElements s3) = []"
    "\<not> js_ge (active_size s3) (maxConcurrentAudio (audioSettings s3))"
    using f3 by (simp_all add: active_size_def)
  have c: "map req_text (pendingRequests (speakText (Text [0x44]) 1500 s3)) = [[0x44]]"
    "audioQueue (speakText (Text [0x44]) 1500 s3) = [([0x43], 2)]"
    using speakText_direct[OF f3(3,4) g v(2), of 1500] f3 t by simp_all
  from b c show ?thesis
    unfolding s3_def s1_def by simp
qed

text \<open>
  Claim C1 fails on the code. With a limit of 1, two calls made one after the other both
  pass the capacity test before either has an element in the active set, and both
  elements are added when their responses arrive: two elements are playing. The retry
  after a user gesture adds its element without any test as well.
\<close>

theorem active_set_exceeds_limit:
  "map_option activeAudioElements (run
      [Configure (limit_patch 1), Speak (Text [0x41]) 0, Speak (Text [0x42]) 0,
       Respond 0 good_response Visible PlayResolves PlayResolves 400,
       Respond 1 good_response Visible PlayResolves PlayResolves 450] ready_state) = Some [0, 1] \<and>
   map_option limit (run
      [Configure (limit_patch 1), Speak (Text [0x41]) 0, Speak (Text [0x42]) 0,
       Respond 0 good_response Visible PlayResolves PlayResolves 400,
       Respond 1 good_response Visible PlayResolves PlayResolves 450] ready_state) = Some (Num 1) \<and>
   map_option all_playing (run
      [Configure (limit_patch 1), Speak (Text [0x41]) 0, Speak (Text [0x42]) 0,
       Respond 0 good_response Visible PlayResolves PlayResolves 400,
       Respond 1 good_response Visible PlayResolves PlayResolves 450] ready_state) = Some True \<and>
   map_option activeAudioElements (run
      [Configure (limit_patch 1), Speak (Text [0x41]) 0,
       Respond 0 good_response Visible not_allowed not_allowed 400,
       Speak (Text [0x42]) 500,
       Respond 1 good_response Visible PlayResolves PlayResolves 900,
       Interaction 0 PlayResolves] ready_state) = Some [1, 0] \<and>
   map_option all_playing (run
      [Configure (limit_patch 1), Speak (Text [0x41]) 0,
       Respond 0 good_response Visible not_allowed not_allowed 400,
       Speak (Text [0x42]) 500,
       Respond 1 good_response Visible PlayResolves PlayResolves 900,
       Interaction 0 PlayResolves] ready_state) = Some True"
  by (simp add: model_defs)

section \<open>Autoplay recovery\<close>

text \<open>
  Claim C7 fails on the code. When the page is hidden, \<open>handleAutoplayOptimization\<close>
  throws an \<open>Error\<close> whose message begins with \<open>NotAllowedError\<close> but whose name is
  \<open>Error\<close>; the handler compares the name, so the element is treated as an ordinary
  playback failure: no listener and no clean-up timer are set, the element leaves the
  active set and its URL is revoked. A \<open>play()\<close> rejected with a real \<open>NotAllowedError\<close>
  does reach the recovery path.
\<close>

theorem hidden_page_not_recovered:
  "map_option interactionListeners (run
      [Speak (Text [0x41]) 0, Respond 0 good_response Hidden PlayResolves PlayResolves 400]
      ready_state) = Some [] \<and>
   map_option cleanupTimers (run
      [Speak (Text [0x41]) 0, Respond 0 good_response Hidden PlayResolves PlayResolves 400]
      ready_state) = Some [] \<and>
   map_option activeAudioElements (run
      [Speak (Text [0x41]) 0, Respond 0 good_response Hidden PlayResolves PlayResolves 400]
      ready_state) = Some [] \<and>
   map_option (revocations 0) (run
      [Speak (Text [0x41]) 0, Respond 0 good_response Hidden PlayResolves PlayResolves 400]
      ready_state) = Some 1 \<and>
   map_option (last \<circ> console) (run
      [Speak (Text [0x41]) 0, Respond 0 good_response Hidden PlayResolves PlayResolves 400]
      ready_state) = Some (Warn, ''TTS_AUDIO_ERROR: Audio playback failed'') \<and>
   map_option interactionListeners (run
      [Speak (Text [0x41]) 0, Respond 0 good_response Visible not_allowed not_allowed 400]
      ready_state) = Some [0]"
  by (simp add: model_defs)

end
